theory Spec2Isabelle
  imports Main
begin

section \<open>Aiven service resource: data model\<close>

text \<open>
  The embedding follows \<open>resource_service.go\<close> (the generic service resource and the
  functions shared by every per-type service resource). Go strings are \<open>string\<close>,
  Go maps are partial functions, a nil pointer is \<open>None\<close>.
\<close>

subsection \<open>Errors and outcomes\<close>

text \<open>
  Every Go \<open>error\<close> value the controller can return. \<open>APIError\<close> is the client library's
  error with its HTTP status; \<open>SetError\<close> is what \<open>d.Set\<close> returns for a key the schema
  does not have; \<open>WaitError\<close>, \<open>CannotSetUserConfig\<close> and \<open>CannotSetComponents\<close> are the
  three \<open>fmt.Errorf\<close> wrappers of the source, keeping the error they render.
\<close>

datatype error =
    APIError nat string
  | SetError string
  | ValidationError string
  | InvalidIdentifier string
  | MalformedIdentity
  | OperationTimedOut
  | OperationFailed string
  | WaitError error
  | CannotSetUserConfig string error
  | CannotSetComponents error

text \<open>
  What a lifecycle function hands back: \<open>nil\<close> diagnostics, an error, or a Go panic
  (the fatal branch of the connection-info projection).
\<close>

datatype outcome = Success | Failure error | Fatal string

text \<open>\<open>aiven.IsNotFound\<close>: an API error whose status is 404.\<close>

fun IsNotFound :: "error \<Rightarrow> bool" where
  "IsNotFound (APIError status msg) = (status = 404)"
| "IsNotFound _ = False"

subsection \<open>Declarative values and the resource record\<close>

datatype tfval =
    TString string
  | TInt int
  | TBool bool
  | TList "tfval list"
  | TMap "(string \<times> tfval) list"

text \<open>
  \<open>schema.ResourceData\<close>: the identity, the attribute values being written, the values
  of the prior state (what \<open>HasChanges\<close> compares against), the keys of the resource's
  schema, and the two configured timeouts, counted in polls of the waiter.
\<close>

record ResourceData =
  resourceId :: string
  attrs :: "string \<rightharpoonup> tfval"
  prior :: "string \<rightharpoonup> tfval"
  schemaKeys :: "string list"
  timeoutCreate :: nat
  timeoutUpdate :: nat

text \<open>\<open>d.Get(key).(string)\<close>: the zero value when the key is unset.\<close>

definition d_GetString :: "ResourceData \<Rightarrow> string \<Rightarrow> string" where
  "d_GetString d k = (case attrs d k of Some (TString s) \<Rightarrow> s | _ \<Rightarrow> [])"

definition d_GetBool :: "ResourceData \<Rightarrow> string \<Rightarrow> bool" where
  "d_GetBool d k = (case attrs d k of Some (TBool b) \<Rightarrow> b | _ \<Rightarrow> False)"

definition listOf :: "tfval option \<Rightarrow> tfval list" where
  "listOf v = (case v of Some (TList xs) \<Rightarrow> xs | _ \<Rightarrow> [])"

definition d_GetList :: "ResourceData \<Rightarrow> string \<Rightarrow> tfval list" where
  "d_GetList d k = listOf (attrs d k)"

text \<open>
  \<open>d.HasChanges(key)\<close> for a list attribute: the prior and the new value of the key
  differ (an unset list reads as the empty list on both sides).
\<close>

definition HasChanges :: "ResourceData \<Rightarrow> string \<Rightarrow> bool" where
  "HasChanges d k = (listOf (prior d k) \<noteq> listOf (attrs d k))"

text \<open>\<open>d.Set(key, value)\<close>: fails, changing nothing, for a key outside the schema.\<close>

definition d_Set :: "ResourceData \<Rightarrow> string \<Rightarrow> tfval \<Rightarrow> outcome \<times> ResourceData" where
  "d_Set d k v =
     (if k \<in> set (schemaKeys d) then (Success, d\<lparr>attrs := (attrs d)(k \<mapsto> v)\<rparr>)
      else (Failure (SetError k), d))"

text \<open>
  The chain \<open>if err := d.Set(...); err != nil { return err }\<close>: the assignments are made
  in order and the first failure returns, the earlier assignments staying in place.
\<close>

fun setAll :: "ResourceData \<Rightarrow> (string \<times> tfval) list \<Rightarrow> outcome \<times> ResourceData" where
  "setAll d [] = (Success, d)"
| "setAll d ((k, v) # kvs) =
     (case d_Set d k v of
        (Success, d') \<Rightarrow> setAll d' kvs
      | (other, d') \<Rightarrow> (other, d'))"

text \<open>Sequencing of two steps on the record: the second runs only after a success.\<close>

definition andThen ::
  "outcome \<times> ResourceData \<Rightarrow> (ResourceData \<Rightarrow> outcome \<times> ResourceData) \<Rightarrow> outcome \<times> ResourceData" where
  "andThen r f = (case r of (Success, d) \<Rightarrow> f d | (other, d) \<Rightarrow> (other, d))"

definition wrapErr :: "(error \<Rightarrow> error) \<Rightarrow> outcome \<times> ResourceData \<Rightarrow> outcome \<times> ResourceData" where
  "wrapErr w r = (case r of (Failure e, d) \<Rightarrow> (Failure (w e), d) | other \<Rightarrow> other)"

section \<open>Composite identity codec\<close>

text \<open>\<open>strings.Split(s, "/")\<close> for a one-character separator: never the empty list.\<close>

fun splitOn :: "char \<Rightarrow> string \<Rightarrow> string list" where
  "splitOn sep [] = [[]]"
| "splitOn sep (c # cs) =
     (if c = sep then [] # splitOn sep cs
      else (case splitOn sep cs of [] \<Rightarrow> [[c]] | p # ps \<Rightarrow> (c # p) # ps))"

text \<open>\<open>strings.Join(parts, "/")\<close>.\<close>

fun joinWith :: "char \<Rightarrow> string list \<Rightarrow> string" where
  "joinWith sep [] = []"
| "joinWith sep [p] = p"
| "joinWith sep (p # q # ps) = p @ sep # joinWith sep (q # ps)"

text \<open>
  Modelled from the spec: the escaping of one part. The helpers \<open>buildResourceID\<close> and
  \<open>splitResourceID\<close> are called by the code under study but defined elsewhere in the
  repository; the spec asks for a reversible escape-on-separator scheme with separator
  \<open>/\<close>. Here \<open>/\<close> is written \<open>%2F\<close> and \<open>%\<close> is written \<open>%25\<close>.
\<close>

fun escapePart :: "string \<Rightarrow> string" where
  "escapePart [] = []"
| "escapePart (c # cs) =
     (if c = CHR ''/'' then ''%2F'' @ escapePart cs
      else if c = CHR ''%'' then ''%25'' @ escapePart cs
      else c # escapePart cs)"

text \<open>
  Modelled from the spec: the inverse of \<open>escapePart\<close>; any other use of \<open>%\<close> is
  unbalanced escaping.
\<close>

fun unescapePart :: "string \<Rightarrow> string option" where
  "unescapePart [] = Some []"
| "unescapePart (c # a # b # cs) =
     (if c = CHR ''%'' then
        (if a = CHR ''2'' \<and> b = CHR ''F'' then map_option ((#) CHR ''/'') (unescapePart cs)
         else if a = CHR ''2'' \<and> b = CHR ''5'' then map_option ((#) CHR ''%'') (unescapePart cs)
         else None)
      else map_option ((#) c) (unescapePart (a # b # cs)))"
| "unescapePart (c # cs) =
     (if c = CHR ''%'' then None else map_option ((#) c) (unescapePart cs))"

text \<open>
  Modelled from the spec: \<open>encode(parts)\<close>, the escaped parts joined with the separator.
\<close>

definition buildResourceID :: "string list \<Rightarrow> string" where
  "buildResourceID parts = joinWith CHR ''/'' (map escapePart parts)"

text \<open>
  Modelled from the spec: \<open>decode(id, expectedPartCount)\<close>, failing with
  \<open>MalformedIdentity\<close> when the part count does not match or the escaping is unbalanced.
\<close>

definition splitResourceID :: "string \<Rightarrow> nat \<Rightarrow> error + string list" where
  "splitResourceID resourceID n =
     (let ps = splitOn CHR ''/'' resourceID in
      if length ps \<noteq> n then Inl MalformedIdentity
      else (case those (map unescapePart ps) of
              None \<Rightarrow> Inl MalformedIdentity
            | Some parts \<Rightarrow> Inr parts))"

section \<open>The remote API\<close>

subsection \<open>Responses\<close>

record MaintenanceWindow =
  DayOfWeek :: string
  TimeOfDay :: string

text \<open>
  Modelled from the spec: the client library's component type is not part of this
  repository's sources; per the data model a component has a name, host, port, route and
  usage, an optional encryption flag and an optional per-component authentication method.
\<close>

record ServiceComponents =
  Component :: string
  Host :: string
  Port :: int
  Route :: string
  Usage :: string
  Ssl :: "bool option"
  KafkaAuthenticationMethod :: "string option"

record PostgresParams =
  DatabaseName :: string
  ParamsHost :: string
  Password :: string
  ParamsPort :: string
  SSLMode :: string
  User :: string

record ConnectionInfo =
  OpensearchDashboardsURI :: string
  KibanaURI :: string
  InfluxDBDatabaseName :: string
  KafkaAccessCert :: string
  KafkaAccessKey :: string
  KafkaConnectURI :: string
  KafkaRestURI :: string
  SchemaRegistryURI :: string
  PostgresURIs :: "string list"
  PostgresParams :: "PostgresParams list"
  PostgresReplicaURI :: string
  FlinkHostPorts :: "string list"

record Service =
  Name :: string
  Type :: string
  CloudName :: string
  State :: string
  Plan :: string
  TerminationProtection :: bool
  MaintenanceWindow :: MaintenanceWindow
  URI :: string
  ProjectVPCID :: "string option"
  UserConfig :: tfval
  URIParams :: "string \<rightharpoonup> string"
  Components :: "ServiceComponents list"
  ConnectionInfo :: ConnectionInfo

subsection \<open>Requests\<close>

record NewServiceIntegration =
  IntegrationType :: string
  SourceService :: "string option"
  IntegrationUserConfig :: "(string \<times> tfval) list"

text \<open>The fields the create and the update request have in common.\<close>

record ServiceRequest =
  Cloud :: string
  ReqMaintenanceWindow :: "MaintenanceWindow option"
  ReqPlan :: string
  ReqProjectVPCID :: "string option"
  ReqTerminationProtection :: bool
  ReqUserConfig :: tfval

record CreateServiceRequest = ServiceRequest +
  ServiceIntegrations :: "NewServiceIntegration list"
  ServiceName :: string
  ServiceType :: string

record UpdateServiceRequest = ServiceRequest +
  Powered :: bool

subsection \<open>The client, the translator and the remote world\<close>

datatype StateClass = Pending | TerminalSuccess | TerminalFailure

text \<open>
  The external collaborators of the controller, over a remote state \<open>'w\<close>: the four
  operations of \<open>client.Services\<close>; the two user-config translators and the two-part
  identity decoder \<open>splitResourceID2\<close> (repository code outside the files under study,
  taken as they come: the callers take two strings from the decoder and have no error
  path); and the waiter's classification of an observed service, per operation kind.
\<close>

record 'w Env =
  Services_Create :: "string \<Rightarrow> CreateServiceRequest \<Rightarrow> 'w \<Rightarrow> (error + Service) \<times> 'w"
  Services_Get :: "string \<Rightarrow> string \<Rightarrow> 'w \<Rightarrow> (error + Service) \<times> 'w"
  Services_Update :: "string \<Rightarrow> string \<Rightarrow> UpdateServiceRequest \<Rightarrow> 'w \<Rightarrow> (error + Service) \<times> 'w"
  Services_Delete :: "string \<Rightarrow> string \<Rightarrow> 'w \<Rightarrow> error option \<times> 'w"
  ConvertTerraformUserConfigToAPICompatibleFormat ::
    "string \<Rightarrow> string \<Rightarrow> bool \<Rightarrow> ResourceData \<Rightarrow> tfval"
  ConvertAPIUserConfigToTerraformCompatibleFormat :: "string \<Rightarrow> string \<Rightarrow> tfval \<Rightarrow> tfval"
  splitResourceID2 :: "string \<Rightarrow> string \<times> string"
  classifyState :: "string \<Rightarrow> Service \<Rightarrow> StateClass"

datatype Call =
    CallCreate string CreateServiceRequest
  | CallGet string string
  | CallUpdate string string UpdateServiceRequest
  | CallDelete string string

text \<open>The remote state together with the trace of the calls made so far.\<close>

record 'w World =
  remote :: 'w
  calls :: "Call list"

definition callCreate ::
  "'w Env \<Rightarrow> string \<Rightarrow> CreateServiceRequest \<Rightarrow> 'w World \<Rightarrow> (error + Service) \<times> 'w World" where
  "callCreate env project req W =
     (case Services_Create env project req (remote W) of
        (r, w') \<Rightarrow> (r, \<lparr>remote = w', calls = calls W @ [CallCreate project req]\<rparr>))"

definition callGet ::
  "'w Env \<Rightarrow> string \<Rightarrow> string \<Rightarrow> 'w World \<Rightarrow> (error + Service) \<times> 'w World" where
  "callGet env project name W =
     (case Services_Get env project name (remote W) of
        (r, w') \<Rightarrow> (r, \<lparr>remote = w', calls = calls W @ [CallGet project name]\<rparr>))"

definition callUpdate ::
  "'w Env \<Rightarrow> string \<Rightarrow> string \<Rightarrow> UpdateServiceRequest \<Rightarrow> 'w World
     \<Rightarrow> (error + Service) \<times> 'w World" where
  "callUpdate env project name req W =
     (case Services_Update env project name req (remote W) of
        (r, w') \<Rightarrow> (r, \<lparr>remote = w', calls = calls W @ [CallUpdate project name req]\<rparr>))"

definition callDelete ::
  "'w Env \<Rightarrow> string \<Rightarrow> string \<Rightarrow> 'w World \<Rightarrow> error option \<times> 'w World" where
  "callDelete env project name W =
     (case Services_Delete env project name (remote W) of
        (r, w') \<Rightarrow> (r, \<lparr>remote = w', calls = calls W @ [CallDelete project name]\<rparr>))"

section \<open>Service types and schemas\<close>

definition ServiceTypePG :: string where "ServiceTypePG = ''pg''"
definition ServiceTypeCassandra :: string where "ServiceTypeCassandra = ''cassandra''"
definition ServiceTypeElasticsearch :: string where "ServiceTypeElasticsearch = ''elasticsearch''"
definition ServiceTypeOpensearch :: string where "ServiceTypeOpensearch = ''opensearch''"
definition ServiceTypeGrafana :: string where "ServiceTypeGrafana = ''grafana''"
definition ServiceTypeInfluxDB :: string where "ServiceTypeInfluxDB = ''influxdb''"
definition ServiceTypeRedis :: string where "ServiceTypeRedis = ''redis''"
definition ServiceTypeMySQL :: string where "ServiceTypeMySQL = ''mysql''"
definition ServiceTypeKafka :: string where "ServiceTypeKafka = ''kafka''"
definition ServiceTypeKafkaConnect :: string where "ServiceTypeKafkaConnect = ''kafka_connect''"
definition ServiceTypeKafkaMirrormaker :: string where
  "ServiceTypeKafkaMirrormaker = ''kafka_mirrormaker''"
definition ServiceTypeM3 :: string where "ServiceTypeM3 = ''m3db''"
definition ServiceTypeM3Aggregator :: string where "ServiceTypeM3Aggregator = ''m3aggregator''"
definition ServiceTypeFlink :: string where "ServiceTypeFlink = ''flink''"

definition availableServiceTypes :: "string list" where
  "availableServiceTypes =
     [ServiceTypePG, ServiceTypeCassandra, ServiceTypeElasticsearch, ServiceTypeGrafana,
      ServiceTypeInfluxDB, ServiceTypeRedis, ServiceTypeMySQL, ServiceTypeKafka,
      ServiceTypeKafkaConnect, ServiceTypeKafkaMirrormaker, ServiceTypeM3,
      ServiceTypeM3Aggregator, ServiceTypeOpensearch, ServiceTypeFlink]"

text \<open>
  The \<open>ValidateFunc\<close> of \<open>service_type\<close> in the generic schema:
  \<open>validation.StringInSlice(availableServiceTypes(), false)\<close>.
\<close>

definition validServiceType :: "string \<Rightarrow> bool" where
  "validServiceType t = (t \<in> set availableServiceTypes)"

text \<open>The keys of \<open>serviceCommonSchema()\<close>.\<close>

definition serviceCommonSchema :: "string list" where
  "serviceCommonSchema =
     [''project'', ''cloud_name'', ''plan'', ''service_name'', ''service_type'',
      ''project_vpc_id'', ''maintenance_window_dow'', ''maintenance_window_time'',
      ''termination_protection'', ''service_uri'', ''service_host'', ''service_port'',
      ''service_password'', ''service_username'', ''state'', ''service_integrations'',
      ''components'']"

text \<open>The keys of \<open>aivenServiceSchema\<close>, the schema of the generic service resource.\<close>

definition aivenServiceSchema :: "string list" where
  "aivenServiceSchema =
     [''project'', ''cloud_name'', ''plan'', ''service_name'', ''service_type'',
      ''project_vpc_id'', ''maintenance_window_dow'', ''maintenance_window_time'',
      ''termination_protection'', ''service_uri'', ''service_host'',
      ''service_integrations'', ''components'', ''service_port'', ''service_password'',
      ''service_username'', ''state'',
      ''cassandra'', ''cassandra_user_config'',
      ''elasticsearch'', ''elasticsearch_user_config'',
      ''opensearch'', ''opensearch_user_config'',
      ''grafana'', ''grafana_user_config'',
      ''influxdb'', ''influxdb_user_config'',
      ''kafka'', ''kafka_user_config'',
      ''kafka_connect'', ''kafka_connect_user_config'',
      ''mysql'', ''mysql_user_config'',
      ''kafka_mirrormaker'', ''kafka_mirrormaker_user_config'',
      ''pg'', ''pg_user_config'',
      ''redis'', ''redis_user_config'',
      ''flink'', ''flink_user_config'']"

text \<open>The keys of \<open>redisSchema()\<close>: the common schema and the resource's own two blocks.\<close>

definition redisSchema :: "string list" where
  "redisSchema = serviceCommonSchema @ [ServiceTypeRedis, ServiceTypeRedis @ ''_user_config'']"

section \<open>The change waiter\<close>

record ServiceChangeWaiter =
  Operation :: string
  Project :: string
  WaiterServiceName :: string

text \<open>
  Modelled from the spec: the waiter's polling loop (\<open>Conf(timeout).WaitForStateContext\<close>;
  the type \<open>ServiceChangeWaiter\<close> is built here but its methods are defined elsewhere in
  the repository). The timeout is a budget of polls. Each poll reads the remote service
  and classifies it: pending polls again, terminal success returns the representation,
  terminal failure fails with \<open>OperationFailed\<close> carrying the reported state, and a budget
  used up while pending fails with \<open>OperationTimedOut\<close>. An error of the read itself is
  returned as it is.
\<close>

fun WaitForStateContext ::
  "'w Env \<Rightarrow> ServiceChangeWaiter \<Rightarrow> nat \<Rightarrow> 'w World \<Rightarrow> (error + Service) \<times> 'w World" where
  "WaitForStateContext env w 0 W = (Inl OperationTimedOut, W)"
| "WaitForStateContext env w (Suc budget) W =
     (case callGet env (Project w) (WaiterServiceName w) W of
        (Inl e, W') \<Rightarrow> (Inl e, W')
      | (Inr service, W') \<Rightarrow>
          (case classifyState env (Operation w) service of
             Pending \<Rightarrow> WaitForStateContext env w budget W'
           | TerminalSuccess \<Rightarrow> (Inr service, W')
           | TerminalFailure \<Rightarrow> (Inl (OperationFailed (State service)), W')))"

definition resourceServiceWait ::
  "'w Env \<Rightarrow> ResourceData \<Rightarrow> string \<Rightarrow> 'w World \<Rightarrow> (error + Service) \<times> 'w World" where
  "resourceServiceWait env d operation W =
     (let timeout = (if operation = ''create'' then timeoutCreate d else timeoutUpdate d);
          w = \<lparr>Operation = operation,
               Project = d_GetString d ''project'',
               WaiterServiceName = d_GetString d ''service_name''\<rparr>
      in case WaitForStateContext env w timeout W of
           (Inl err, W') \<Rightarrow> (Inl (WaitError err), W')
         | (Inr service, W') \<Rightarrow> (Inr service, W'))"

section \<open>Copying the remote representation into the record\<close>

text \<open>
  \<open>strconv.ParseInt(s, 10, 32)\<close>: the value and whether the error is nil. A syntax error
  gives 0, a value out of the 32-bit range gives the nearest bound, both with an error.
\<close>

definition digitVal :: "char \<Rightarrow> nat option" where
  "digitVal c =
     (let v = (of_char c :: nat) in if 48 \<le> v \<and> v \<le> 57 then Some (v - 48) else None)"

fun parseDigits :: "string \<Rightarrow> nat \<Rightarrow> nat option" where
  "parseDigits [] acc = Some acc"
| "parseDigits (c # cs) acc =
     (case digitVal c of None \<Rightarrow> None | Some v \<Rightarrow> parseDigits cs (10 * acc + v))"

definition ParseInt32 :: "string \<Rightarrow> int \<times> bool" where
  "ParseInt32 s =
     (let neg = (case s of c # r \<Rightarrow> c = CHR ''-'' | [] \<Rightarrow> False);
          ds = (case s of c # r \<Rightarrow> if c = CHR ''+'' \<or> c = CHR ''-'' then r else s | [] \<Rightarrow> [])
      in if ds = [] then (0, False)
         else (case parseDigits ds 0 of
                 None \<Rightarrow> (0, False)
               | Some n \<Rightarrow>
                   if neg then (if 2147483648 < n then (- 2147483648, False) else (- int n, True))
                   else (if 2147483648 \<le> n then (2147483647, False) else (int n, True))))"

definition flattenServiceComponents :: "Service \<Rightarrow> tfval list" where
  "flattenServiceComponents r =
     map (\<lambda>c. TMap [(''component'', TString (Component c)),
                     (''host'', TString (Host c)),
                     (''port'', TInt (Port c)),
                     (''route'', TString (Route c)),
                     (''usage'', TString (Usage c))])
         (Components r)"

text \<open>
  The \<open>switch serviceType\<close> of the connection-info projection: the properties of the
  block, or \<open>None\<close> in the default branch (the panic).
\<close>

definition pgProps :: "ConnectionInfo \<Rightarrow> (string \<times> tfval) list" where
  "pgProps connectionInfo =
     (case PostgresURIs connectionInfo of [] \<Rightarrow> [] | u # us \<Rightarrow> [(''uri'', TString u)])
     @ (case PostgresParams connectionInfo of
          [] \<Rightarrow> []
        | params # ps \<Rightarrow>
            [(''dbname'', TString (DatabaseName params)),
             (''host'', TString (ParamsHost params)),
             (''password'', TString (Password params))]
            @ (case ParseInt32 (ParamsPort params) of
                 (port, True) \<Rightarrow> [(''port'', TInt port)]
               | (port, False) \<Rightarrow> [])
            @ [(''sslmode'', TString (SSLMode params)),
               (''user'', TString (User params))])
     @ [(''replica_uri'', TString (PostgresReplicaURI connectionInfo))]"

definition connectionProps :: "string \<Rightarrow> ConnectionInfo \<Rightarrow> (string \<times> tfval) list option" where
  "connectionProps serviceType connectionInfo =
     (if serviceType = ''cassandra'' then Some []
      else if serviceType = ''opensearch'' then
        Some [(''opensearch_dashboards_uri'', TString (OpensearchDashboardsURI connectionInfo))]
      else if serviceType = ''elasticsearch'' then
        Some [(''kibana_uri'', TString (KibanaURI connectionInfo))]
      else if serviceType = ''grafana'' then Some []
      else if serviceType = ''influxdb'' then
        Some [(''database_name'', TString (InfluxDBDatabaseName connectionInfo))]
      else if serviceType = ''kafka'' then
        Some [(''access_cert'', TString (KafkaAccessCert connectionInfo)),
              (''access_key'', TString (KafkaAccessKey connectionInfo)),
              (''connect_uri'', TString (KafkaConnectURI connectionInfo)),
              (''rest_uri'', TString (KafkaRestURI connectionInfo)),
              (''schema_registry_uri'', TString (SchemaRegistryURI connectionInfo))]
      else if serviceType = ''kafka_connect'' then Some []
      else if serviceType = ''mysql'' then Some []
      else if serviceType = ''pg'' then Some (pgProps connectionInfo)
      else if serviceType = ''redis'' then Some []
      else if serviceType = ''flink'' then
        Some [(''host_ports'', TList (map TString (FlinkHostPorts connectionInfo)))]
      else if serviceType = ''kafka_mirrormaker'' then Some []
      else if serviceType = ''m3db'' then Some []
      else if serviceType = ''m3aggregator'' then Some []
      else None)"

definition copyConnectionInfoFromAPIResponseToTerraform ::
  "ResourceData \<Rightarrow> string \<Rightarrow> ConnectionInfo \<Rightarrow> outcome \<times> ResourceData" where
  "copyConnectionInfoFromAPIResponseToTerraform d serviceType connectionInfo =
     (case connectionProps serviceType connectionInfo of
        None \<Rightarrow> (Fatal (''Unsupported service type '' @ serviceType), d)
      | Some props \<Rightarrow> d_Set d serviceType (TList [TMap props]))"

text \<open>
  The service type the copy works with: the record's \<open>service_type\<close>, or the remote
  service's type when the record has none (\<open>d.GetOk\<close> is false for the empty string).
\<close>

definition effectiveServiceType :: "ResourceData \<Rightarrow> Service \<Rightarrow> string" where
  "effectiveServiceType d service =
     (if d_GetString d ''service_type'' = [] then Type service
      else d_GetString d ''service_type'')"

definition copyServicePropertiesFromAPIResponseToTerraform ::
  "'w Env \<Rightarrow> ResourceData \<Rightarrow> Service \<Rightarrow> string \<Rightarrow> outcome \<times> ResourceData" where
  "copyServicePropertiesFromAPIResponseToTerraform env d service project =
     (let serviceType = effectiveServiceType d service;
          r1 = setAll d
                 [(''cloud_name'', TString (CloudName service)),
                  (''service_name'', TString (Name service)),
                  (''state'', TString (State service)),
                  (''plan'', TString (Plan service)),
                  (''service_type'', TString serviceType),
                  (''termination_protection'', TBool (TerminationProtection service)),
                  (''maintenance_window_dow'',
                     TString (DayOfWeek (MaintenanceWindow service))),
                  (''maintenance_window_time'',
                     TString (TimeOfDay (MaintenanceWindow service))),
                  (''service_uri'', TString (URI service)),
                  (''project'', TString project)];
          r2 = andThen r1 (\<lambda>d.
                 case ProjectVPCID service of
                   None \<Rightarrow> (Success, d)
                 | Some vpc \<Rightarrow>
                     d_Set d ''project_vpc_id'' (TString (buildResourceID [project, vpc])));
          userConfig = ConvertAPIUserConfigToTerraformCompatibleFormat env
                         ''service'' serviceType (UserConfig service);
          r3 = andThen r2 (\<lambda>d.
                 wrapErr (CannotSetUserConfig serviceType)
                   (d_Set d (serviceType @ ''_user_config'') userConfig));
          params = URIParams service;
          r4 = andThen r3 (\<lambda>d.
                 setAll d
                   ([(''service_host'',
                        TString (case params ''host'' of None \<Rightarrow> [] | Some h \<Rightarrow> h)),
                     (''service_port'',
                        TInt (fst (ParseInt32
                          (case params ''port'' of None \<Rightarrow> [] | Some p \<Rightarrow> p))))]
                    @ (case params ''password'' of
                         None \<Rightarrow> []
                       | Some password \<Rightarrow> [(''service_password'', TString password)])
                    @ (case params ''user'' of
                         None \<Rightarrow> []
                       | Some username \<Rightarrow> [(''service_username'', TString username)])));
          r5 = andThen r4 (\<lambda>d.
                 wrapErr CannotSetComponents
                   (d_Set d ''components'' (TList (flattenServiceComponents service))))
      in andThen r5 (\<lambda>d.
           copyConnectionInfoFromAPIResponseToTerraform d serviceType (ConnectionInfo service)))"

section \<open>The lifecycle controller\<close>

definition getMaintenanceWindow :: "ResourceData \<Rightarrow> MaintenanceWindow option" where
  "getMaintenanceWindow d =
     (let dow = d_GetString d ''maintenance_window_dow'';
          t = d_GetString d ''maintenance_window_time''
      in if length dow > 0 \<and> length t > 0 then Some \<lparr>DayOfWeek = dow, TimeOfDay = t\<rparr>
         else None)"

text \<open>
  The VPC reference of a request: nil when \<open>project_vpc_id\<close> is empty, otherwise the
  second of the two strings the decoder gives for the stored identity.
\<close>

definition vpcIDPointer :: "'w Env \<Rightarrow> ResourceData \<Rightarrow> string option" where
  "vpcIDPointer env d =
     (let vpcID = d_GetString d ''project_vpc_id'' in
      if length vpcID > 0 then Some (snd (splitResourceID2 env vpcID)) else None)"

text \<open>
  One element of \<open>service_integrations\<close>, read with the two type assertions of the
  source: \<open>None\<close> where an assertion would panic.
\<close>

definition integrationOf :: "tfval \<Rightarrow> NewServiceIntegration option" where
  "integrationOf defn =
     (case defn of
        TMap definitionMap \<Rightarrow>
          (case (map_of definitionMap ''source_service_name'',
                 map_of definitionMap ''integration_type'') of
             (Some (TString sourceService), Some (TString integrationType)) \<Rightarrow>
               Some \<lparr>IntegrationType = integrationType,
                     SourceService = Some sourceService,
                     IntegrationUserConfig = []\<rparr>
           | _ \<Rightarrow> None)
      | _ \<Rightarrow> None)"

definition createServiceRequest ::
  "'w Env \<Rightarrow> ResourceData \<Rightarrow> string option \<Rightarrow> NewServiceIntegration list
     \<Rightarrow> CreateServiceRequest" where
  "createServiceRequest env d vpc apiServiceIntegrations =
     \<lparr>Cloud = d_GetString d ''cloud_name'',
      ReqMaintenanceWindow = getMaintenanceWindow d,
      ReqPlan = d_GetString d ''plan'',
      ReqProjectVPCID = vpc,
      ReqTerminationProtection = d_GetBool d ''termination_protection'',
      ReqUserConfig = ConvertTerraformUserConfigToAPICompatibleFormat env
                        ''service'' (d_GetString d ''service_type'') True d,
      ServiceIntegrations = apiServiceIntegrations,
      ServiceName = d_GetString d ''service_name'',
      ServiceType = d_GetString d ''service_type''\<rparr>"

definition updateServiceRequest ::
  "'w Env \<Rightarrow> ResourceData \<Rightarrow> string option \<Rightarrow> UpdateServiceRequest" where
  "updateServiceRequest env d vpc =
     \<lparr>Cloud = d_GetString d ''cloud_name'',
      ReqMaintenanceWindow = getMaintenanceWindow d,
      ReqPlan = d_GetString d ''plan'',
      ReqProjectVPCID = vpc,
      ReqTerminationProtection = d_GetBool d ''termination_protection'',
      ReqUserConfig = ConvertTerraformUserConfigToAPICompatibleFormat env
                        ''service'' (d_GetString d ''service_type'') False d,
      Powered = True\<rparr>"

definition resourceServiceCreate ::
  "'w Env \<Rightarrow> ResourceData \<Rightarrow> 'w World \<Rightarrow> outcome \<times> ResourceData \<times> 'w World" where
  "resourceServiceCreate env d W =
     (case those (map integrationOf (d_GetList d ''service_integrations'')) of
        None \<Rightarrow> (Fatal ''interface conversion'', d, W)
      | Some apiServiceIntegrations \<Rightarrow>
     (case callCreate env (d_GetString d ''project'')
             (createServiceRequest env d (vpcIDPointer env d) apiServiceIntegrations) W of
        (Inl err, W1) \<Rightarrow> (Failure err, d, W1)
      | (Inr created, W1) \<Rightarrow>
     (case resourceServiceWait env d ''create'' W1 of
        (Inl err, W2) \<Rightarrow> (Failure err, d, W2)
      | (Inr service, W2) \<Rightarrow>
          (let d1 = d\<lparr>resourceId := buildResourceID [d_GetString d ''project'', Name service]\<rparr>
           in case copyServicePropertiesFromAPIResponseToTerraform env d1 service
                     (d_GetString d1 ''project'') of
                (out, d2) \<Rightarrow> (out, d2, W2)))))"

text \<open>
  The twelve blocks the generic resource clears before creating, in the order of the
  source.
\<close>

definition preSeededBlocks :: "string list" where
  "preSeededBlocks =
     [ServiceTypeCassandra, ServiceTypeElasticsearch, ServiceTypeGrafana,
      ServiceTypeInfluxDB, ServiceTypeKafka, ServiceTypeKafkaConnect,
      ServiceTypeKafkaMirrormaker, ServiceTypeMySQL, ServiceTypePG, ServiceTypeRedis,
      ServiceTypeOpensearch, ServiceTypeFlink]"

definition resourceServiceCreateWrapper ::
  "string \<Rightarrow> 'w Env \<Rightarrow> ResourceData \<Rightarrow> 'w World \<Rightarrow> outcome \<times> ResourceData \<times> 'w World" where
  "resourceServiceCreateWrapper serviceType env d W =
     (if serviceType = ''service'' then
        (case setAll d (map (\<lambda>block. (block, TList [])) preSeededBlocks) of
           (Success, d1) \<Rightarrow> resourceServiceCreate env d1 W
         | (other, d1) \<Rightarrow> (other, d1, W))
      else
        (case setAll d [(''service_type'', TString serviceType), (serviceType, TList [])] of
           (Success, d1) \<Rightarrow> resourceServiceCreate env d1 W
         | (other, d1) \<Rightarrow> (other, d1, W)))"

text \<open>
  Modelled from the spec: \<open>resourceReadHandleNotFound\<close> (defined elsewhere in the
  repository). A remote not-found is not an error: the identity is cleared, which tells
  the caller to drop the local record; any other error is returned.
\<close>

definition resourceReadHandleNotFound :: "error \<Rightarrow> ResourceData \<Rightarrow> outcome \<times> ResourceData" where
  "resourceReadHandleNotFound err d =
     (if IsNotFound err then (Success, d\<lparr>resourceId := []\<rparr>) else (Failure err, d))"

definition resourceServiceRead ::
  "'w Env \<Rightarrow> ResourceData \<Rightarrow> 'w World \<Rightarrow> outcome \<times> ResourceData \<times> 'w World" where
  "resourceServiceRead env d W =
     (case splitResourceID2 env (resourceId d) of
        (projectName, serviceName) \<Rightarrow>
          (case callGet env projectName serviceName W of
             (Inl err, W1) \<Rightarrow>
               (case resourceReadHandleNotFound err d of (out, d1) \<Rightarrow> (out, d1, W1))
           | (Inr service, W1) \<Rightarrow>
               (case copyServicePropertiesFromAPIResponseToTerraform env d service projectName of
                  (out, d1) \<Rightarrow> (out, d1, W1))))"

definition resourceServiceUpdate ::
  "'w Env \<Rightarrow> ResourceData \<Rightarrow> 'w World \<Rightarrow> outcome \<times> ResourceData \<times> 'w World" where
  "resourceServiceUpdate env d W =
     (if HasChanges d ''service_integrations''
         \<and> length (d_GetList d ''service_integrations'') \<noteq> 0 then
        (Failure (ValidationError
           ''service_integrations field can only be set during creation of a service''), d, W)
      else
     (case splitResourceID2 env (resourceId d) of
        (projectName, serviceName) \<Rightarrow>
     (case callUpdate env projectName serviceName
             (updateServiceRequest env d (vpcIDPointer env d)) W of
        (Inl err, W1) \<Rightarrow> (Failure err, d, W1)
      | (Inr updated, W1) \<Rightarrow>
     (case resourceServiceWait env d ''update'' W1 of
        (Inl err, W2) \<Rightarrow> (Failure err, d, W2)
      | (Inr service, W2) \<Rightarrow>
          (case copyServicePropertiesFromAPIResponseToTerraform env d service projectName of
             (out, d1) \<Rightarrow> (out, d1, W2))))))"

definition resourceServiceDelete ::
  "'w Env \<Rightarrow> ResourceData \<Rightarrow> 'w World \<Rightarrow> outcome \<times> ResourceData \<times> 'w World" where
  "resourceServiceDelete env d W =
     (case splitResourceID2 env (resourceId d) of
        (projectName, serviceName) \<Rightarrow>
          (case callDelete env projectName serviceName W of
             (None, W1) \<Rightarrow> (Success, d, W1)
           | (Some err, W1) \<Rightarrow>
               if \<not> IsNotFound err then (Failure err, d, W1) else (Success, d, W1)))"

text \<open>The importer: the identity must split into exactly two parts at the separator.\<close>

definition resourceServiceState ::
  "'w Env \<Rightarrow> ResourceData \<Rightarrow> 'w World \<Rightarrow> outcome \<times> ResourceData \<times> 'w World" where
  "resourceServiceState env d W =
     (if length (splitOn CHR ''/'' (resourceId d)) \<noteq> 2 then
        (Failure (InvalidIdentifier (resourceId d)), d, W)
      else
     (case splitResourceID2 env (resourceId d) of
        (projectName, serviceName) \<Rightarrow>
          (case callGet env projectName serviceName W of
             (Inl err, W1) \<Rightarrow> (Failure err, d, W1)
           | (Inr service, W1) \<Rightarrow>
               (case copyServicePropertiesFromAPIResponseToTerraform env d service projectName of
                  (out, d1) \<Rightarrow> (out, d1, W1)))))"

section \<open>Notions used in the statements\<close>


text \<open>The record after a list of assignments, made in order.\<close>

definition assignAll :: "(string \<times> tfval) list \<Rightarrow> ResourceData \<Rightarrow> ResourceData" where
  "assignAll kvs d = d\<lparr>attrs := fold (\<lambda>(k, v) m. m(k \<mapsto> v)) kvs (attrs d)\<rparr>"

text \<open>
  The assignments a successful copy makes, in the order of the source, for a service type
  whose projected block is \<open>props\<close>: the ten unconditional fields, the VPC reference when
  the remote reports one, and the rest.
\<close>

definition copyFixed :: "string \<Rightarrow> Service \<Rightarrow> string \<Rightarrow> (string \<times> tfval) list" where
  "copyFixed serviceType service project =
     [(''cloud_name'', TString (CloudName service)),
      (''service_name'', TString (Name service)),
      (''state'', TString (State service)),
      (''plan'', TString (Plan service)),
      (''service_type'', TString serviceType),
      (''termination_protection'', TBool (TerminationProtection service)),
      (''maintenance_window_dow'', TString (DayOfWeek (MaintenanceWindow service))),
      (''maintenance_window_time'', TString (TimeOfDay (MaintenanceWindow service))),
      (''service_uri'', TString (URI service)),
      (''project'', TString project)]"

definition copyVpc :: "Service \<Rightarrow> string \<Rightarrow> (string \<times> tfval) list" where
  "copyVpc service project =
     (case ProjectVPCID service of
        None \<Rightarrow> []
      | Some vpc \<Rightarrow> [(''project_vpc_id'', TString (buildResourceID [project, vpc]))])"

definition copyRest ::
  "'w Env \<Rightarrow> string \<Rightarrow> Service \<Rightarrow> (string \<times> tfval) list \<Rightarrow> (string \<times> tfval) list" where
  "copyRest env serviceType service props =
     [(serviceType @ ''_user_config'',
         ConvertAPIUserConfigToTerraformCompatibleFormat env
           ''service'' serviceType (UserConfig service)),
      (''service_host'',
         TString (case URIParams service ''host'' of None \<Rightarrow> [] | Some h \<Rightarrow> h)),
      (''service_port'',
         TInt (fst (ParseInt32
           (case URIParams service ''port'' of None \<Rightarrow> [] | Some p \<Rightarrow> p))))]
     @ (case URIParams service ''password'' of
          None \<Rightarrow> []
        | Some password \<Rightarrow> [(''service_password'', TString password)])
     @ (case URIParams service ''user'' of
          None \<Rightarrow> []
        | Some username \<Rightarrow> [(''service_username'', TString username)])
     @ [(''components'', TList (flattenServiceComponents service)),
        (serviceType, TList [TMap props])]"

definition copyAssignments ::
  "'w Env \<Rightarrow> string \<Rightarrow> Service \<Rightarrow> string \<Rightarrow> (string \<times> tfval) list \<Rightarrow> (string \<times> tfval) list" where
  "copyAssignments env serviceType service project props =
     copyFixed serviceType service project @ copyVpc service project
       @ copyRest env serviceType service props"

text \<open>
  A step on the record behaves as the assignments \<open>kvs\<close>: it succeeds exactly when every
  key is in the schema, and then its result is the record after these assignments.
\<close>

definition succeedsAs ::
  "outcome \<times> ResourceData \<Rightarrow> ResourceData \<Rightarrow> (string \<times> tfval) list \<Rightarrow> bool" where
  "succeedsAs r d kvs =
     (\<forall>d'. r = (Success, d') \<longleftrightarrow>
            (fst ` set kvs \<subseteq> set (schemaKeys d) \<and> d' = assignAll kvs d))"


text \<open>
  The assignments the create wrapper makes before it creates: the twelve cleared blocks
  for the generic resource; the service type and the resource's own cleared block for a
  per-type resource.
\<close>

definition wrapperSeeds :: "string \<Rightarrow> (string \<times> tfval) list" where
  "wrapperSeeds serviceType =
     (if serviceType = ''service'' then map (\<lambda>block. (block, TList [])) preSeededBlocks
      else [(''service_type'', TString serviceType), (serviceType, TList [])])"
section \<open>A scripted remote for concrete runs\<close>

text \<open>
  A remote whose state counts the reads it has answered: the \<open>n\<close>-th read returns the
  \<open>n\<close>-th service of the script (not-found once the script is used up), create and update
  answer with the first service of the script, and delete answers with the given error.
  The translators are trivial, and the decoder is the decode of the codec for two parts
  (two empty strings where that fails). The state \<open>RUNNING\<close> is the target of a wait,
  \<open>REBUILDING\<close> and \<open>REBALANCING\<close> are pending, any other state is a failure.
\<close>

definition decodeTwo :: "string \<Rightarrow> string \<times> string" where
  "decodeTwo resourceID =
     (case splitResourceID resourceID 2 of Inr [a, b] \<Rightarrow> (a, b) | _ \<Rightarrow> ([], []))"

definition scriptedEnv :: "Service list \<Rightarrow> error option \<Rightarrow> nat Env" where
  "scriptedEnv script deleteError =
     \<lparr>Services_Create = (\<lambda>project req n.
         (case script of [] \<Rightarrow> Inl (APIError 500 ''no service'') | s # ss \<Rightarrow> Inr s, n)),
      Services_Get = (\<lambda>project name n.
         (case drop n script of [] \<Rightarrow> Inl (APIError 404 ''not found'') | s # ss \<Rightarrow> Inr s,
          Suc n)),
      Services_Update = (\<lambda>project name req n.
         (case script of [] \<Rightarrow> Inl (APIError 500 ''no service'') | s # ss \<Rightarrow> Inr s, n)),
      Services_Delete = (\<lambda>project name n. (deleteError, n)),
      ConvertTerraformUserConfigToAPICompatibleFormat = (\<lambda>kind serviceType isCreate d. TMap []),
      ConvertAPIUserConfigToTerraformCompatibleFormat = (\<lambda>kind serviceType cfg. TList [cfg]),
      splitResourceID2 = decodeTwo,
      classifyState = (\<lambda>operation service.
         if State service = ''RUNNING'' then TerminalSuccess
         else if State service = ''REBUILDING'' \<or> State service = ''REBALANCING'' then Pending
         else TerminalFailure)\<rparr>"

definition noConnectionInfo :: ConnectionInfo where
  "noConnectionInfo =
     \<lparr>OpensearchDashboardsURI = [], KibanaURI = [], InfluxDBDatabaseName = [],
      KafkaAccessCert = [], KafkaAccessKey = [], KafkaConnectURI = [], KafkaRestURI = [],
      SchemaRegistryURI = [], PostgresURIs = [], PostgresParams = [],
      PostgresReplicaURI = [], FlinkHostPorts = []\<rparr>"

text \<open>A Kafka service with one component that reports both optional properties.\<close>

definition kafkaComponent :: ServiceComponents where
  "kafkaComponent =
     \<lparr>Component = ''kafka'', Host = ''kafka-1.example.com'', Port = 9092,
      Route = ''dynamic'', Usage = ''primary'', Ssl = Some False,
      KafkaAuthenticationMethod = Some ''sasl''\<rparr>"

definition exampleService :: "string \<Rightarrow> string \<Rightarrow> Service" where
  "exampleService serviceType state =
     \<lparr>Name = ''svc1'', Type = serviceType, CloudName = ''google-europe-west1'',
      State = state, Plan = ''startup-4'', TerminationProtection = False,
      MaintenanceWindow = \<lparr>DayOfWeek = ''monday'', TimeOfDay = ''10:00:00''\<rparr>,
      URI = ''https://svc1.example.com:443'', ProjectVPCID = None, UserConfig = TMap [],
      URIParams = [''host'' \<mapsto> ''svc1.example.com'', ''port'' \<mapsto> ''443''],
      Components = [kafkaComponent], ConnectionInfo = noConnectionInfo\<rparr>"

text \<open>
  The record of the generic resource before a create: the configured attributes only.
\<close>

definition plannedService :: "string \<Rightarrow> ResourceData" where
  "plannedService serviceType =
     \<lparr>resourceId = [],
      attrs = [''project'' \<mapsto> TString ''proj'', ''service_name'' \<mapsto> TString ''svc1'',
               ''service_type'' \<mapsto> TString serviceType, ''plan'' \<mapsto> TString ''startup-4'',
               ''maintenance_window_dow'' \<mapsto> TString ''monday'',
               ''maintenance_window_time'' \<mapsto> TString ''10:00:00''],
      prior = Map.empty,
      schemaKeys = aivenServiceSchema,
      timeoutCreate = 120,
      timeoutUpdate = 120\<rparr>"

text \<open>
  An existing record of the generic resource, with the service integrations of its prior
  state and those of the planned update; \<open>readReplica\<close> is one integration.
\<close>

definition readReplica :: tfval where
  "readReplica = TMap [(''source_service_name'', TString ''svc0''),
                       (''integration_type'', TString ''read_replica'')]"

definition existingService :: "tfval list \<Rightarrow> tfval list \<Rightarrow> ResourceData" where
  "existingService oldIntegrations newIntegrations =
     \<lparr>resourceId = ''proj/svc1'',
      attrs = [''project'' \<mapsto> TString ''proj'', ''service_name'' \<mapsto> TString ''svc1'',
               ''service_type'' \<mapsto> TString ''pg'', ''plan'' \<mapsto> TString ''startup-4'',
               ''service_integrations'' \<mapsto> TList newIntegrations],
      prior = [''service_integrations'' \<mapsto> TList oldIntegrations],
      schemaKeys = aivenServiceSchema,
      timeoutCreate = 120,
      timeoutUpdate = 120\<rparr>"

definition emptyWorld :: "nat World" where
  "emptyWorld = \<lparr>remote = 0, calls = []\<rparr>"

text \<open>An existing record that refers to a project VPC.\<close>

definition serviceInVpc :: ResourceData where
  "serviceInVpc = (existingService [] [])
     \<lparr>attrs := (attrs (existingService [] []))(''project_vpc_id'' \<mapsto> TString ''proj/vpc1'')\<rparr>"


text \<open>The record of the Redis resource before a create; its schema is \<open>redisSchema\<close>.\<close>

definition plannedRedis :: ResourceData where
  "plannedRedis =
     \<lparr>resourceId = [],
      attrs = [''project'' \<mapsto> TString ''proj'', ''service_name'' \<mapsto> TString ''svc1'',
               ''plan'' \<mapsto> TString ''startup-4''],
      prior = Map.empty,
      schemaKeys = redisSchema,
      timeoutCreate = 120,
      timeoutUpdate = 120\<rparr>"

section \<open>Identity round trip\<close>

lemma splitOn_not_Nil: "splitOn sep s \<noteq> []"
  by (induction s) (auto split: list.splits)

lemma splitOn_no_sep: "sep \<notin> set p \<Longrightarrow> splitOn sep p = [p]"
  by (induction p) auto

lemma splitOn_append:
  "sep \<notin> set p \<Longrightarrow> splitOn sep (p @ sep # rest) = p # splitOn sep rest"
  by (induction p) auto

lemma splitOn_joinWith:
  "ps \<noteq> [] \<Longrightarrow> \<forall>p \<in> set ps. sep \<notin> set p \<Longrightarrow> splitOn sep (joinWith sep ps) = ps"
proof (induction sep ps rule: joinWith.induct)
  case (1 sep)
  then show ?case by simp
next
  case (2 sep p)
  then show ?case by (simp add: splitOn_no_sep)
next
  case (3 sep p q ps)
  then show ?case by (simp add: splitOn_append)
qed

lemma escapePart_no_sep: "CHR ''/'' \<notin> set (escapePart p)"
  by (induction p) auto

lemma unescapePart_plain:
  assumes "c \<noteq> CHR ''%''"
  shows "unescapePart (c # s) = map_option ((#) c) (unescapePart s)"
proof (cases s)
  case Nil
  with assms show ?thesis by simp
next
  case (Cons a t)
  with assms show ?thesis by (cases t) simp_all
qed

lemma unescapePart_escapePart:
  "unescapePart (escapePart p) = Some p"
  by (induction p) (simp_all add: unescapePart_plain)

lemma those_unescape_escape:
  "those (map unescapePart (map escapePart ps)) = Some ps"
  by (induction ps) (simp_all add: unescapePart_escapePart)

lemma splitResourceID_buildResourceID:
  "parts \<noteq> [] \<Longrightarrow> splitResourceID (buildResourceID parts) (length parts) = Inr parts"
proof -
  assume ne: "parts \<noteq> []"
  have "splitOn CHR ''/'' (joinWith CHR ''/'' (map escapePart parts)) = map escapePart parts"
    using ne by (intro splitOn_joinWith) (auto simp: escapePart_no_sep)
  then show ?thesis
    using those_unescape_escape [of parts]
    by (simp add: splitResourceID_def buildResourceID_def)
qed

text \<open>
  The importer's check passes on every identity built from two parts: it splits into
  exactly two parts at the separator, whatever the parts contain.
\<close>

lemma import_accepts_built_identity:
  "length (splitOn CHR ''/'' (buildResourceID [a, b])) = 2"
proof -
  have "splitOn CHR ''/'' (joinWith CHR ''/'' (map escapePart [a, b])) = map escapePart [a, b]"
    by (intro splitOn_joinWith) (auto simp: escapePart_no_sep)
  then show ?thesis by (simp add: buildResourceID_def)
qed

lemma ParseInt32_examples:
  "ParseInt32 ''443'' = (443, True)"
  "ParseInt32 ''-12x'' = (0, False)"
  "ParseInt32 [] = (0, False)"
  "ParseInt32 ''99999999999'' = (2147483647, False)"
  "ParseInt32 ''-2147483648'' = (- 2147483648, True)"
  by (simp_all add: ParseInt32_def digitVal_def)

text \<open>
  C1. Identity round trip: for every sequence of 2 to 4 string parts, whatever the
  parts hold (separators, empty strings), decoding the encoded identity with the same
  part count gives back exactly the original sequence.
\<close>

theorem identity_round_trip:
  "2 \<le> length parts \<Longrightarrow> length parts \<le> 4 \<Longrightarrow>
   splitResourceID (buildResourceID parts) (length parts) = Inr parts"
  by (rule splitResourceID_buildResourceID) auto

theorem identity_round_trip_witness:
  "splitResourceID (buildResourceID [''my/project'', '''', ''100%'']) 3
     = Inr [''my/project'', '''', ''100%'']"
  using identity_round_trip [of "[''my/project'', '''', ''100%'']"]
  by (simp add: numeral_3_eq_3)

section \<open>Calls made by the building blocks\<close>

lemma callGet_calls:
  "callGet env p n W = (r, W') \<Longrightarrow> calls W' = calls W @ [CallGet p n]"
  by (auto simp: callGet_def split: prod.splits)

lemma WaitForStateContext_calls:
  "WaitForStateContext env w budget W = (r, W') \<Longrightarrow>
   \<exists>k \<le> budget. calls W' = calls W @ replicate k (CallGet (Project w) (WaiterServiceName w))"
proof (induction budget arbitrary: W)
  case 0
  then show ?case by simp
next
  case (Suc budget)
  obtain r1 W1 where g: "callGet env (Project w) (WaiterServiceName w) W = (r1, W1)"
    by (cases "callGet env (Project w) (WaiterServiceName w) W")
  have c1: "calls W1 = calls W @ [CallGet (Project w) (WaiterServiceName w)]"
    using g by (rule callGet_calls)
  show ?case
  proof (cases r1)
    case (Inl e)
    with Suc.prems g c1 have "calls W' = calls W @ replicate 1 (CallGet (Project w) (WaiterServiceName w))"
      by simp
    then show ?thesis by (intro exI [of _ 1]) simp
  next
    case (Inr service)
    show ?thesis
    proof (cases "classifyState env (Operation w) service")
      case Pending
      with Suc.prems g Inr have "WaitForStateContext env w budget W1 = (r, W')" by simp
      from Suc.IH [OF this] obtain k where "k \<le> budget"
        and "calls W' = calls W1 @ replicate k (CallGet (Project w) (WaiterServiceName w))"
        by blast
      with c1 have "calls W' = calls W @ replicate (Suc k) (CallGet (Project w) (WaiterServiceName w))"
        by simp
      with \<open>k \<le> budget\<close> show ?thesis by (intro exI [of _ "Suc k"]) simp
    next
      case TerminalSuccess
      with Suc.prems g Inr c1 have "calls W' = calls W @ replicate 1 (CallGet (Project w) (WaiterServiceName w))"
        by simp
      then show ?thesis by (intro exI [of _ 1]) simp
    next
      case TerminalFailure
      with Suc.prems g Inr c1 have "calls W' = calls W @ replicate 1 (CallGet (Project w) (WaiterServiceName w))"
        by simp
      then show ?thesis by (intro exI [of _ 1]) simp
    qed
  qed
qed

lemma resourceServiceWait_calls:
  "resourceServiceWait env d operation W = (r, W') \<Longrightarrow>
   \<exists>k. calls W' = calls W @ replicate k
          (CallGet (d_GetString d ''project'') (d_GetString d ''service_name''))"
proof -
  assume a: "resourceServiceWait env d operation W = (r, W')"
  let ?w = "\<lparr>Operation = operation, Project = d_GetString d ''project'',
              WaiterServiceName = d_GetString d ''service_name''\<rparr>"
  let ?t = "if operation = ''create'' then timeoutCreate d else timeoutUpdate d"
  obtain r0 where "WaitForStateContext env ?w ?t W = (r0, W')"
    using a by (auto simp: resourceServiceWait_def Let_def split: prod.splits sum.splits)
  from WaitForStateContext_calls [OF this] show ?thesis by auto
qed

text \<open>
  Once the integrations are read, a create sends its request first and then only polls.
\<close>

lemma resourceServiceCreate_trace:
  assumes "those (map integrationOf (d_GetList d ''service_integrations'')) = Some ints"
  shows "\<exists>k. calls (snd (snd (resourceServiceCreate env d W))) =
           calls W @ CallCreate (d_GetString d ''project'')
                       (createServiceRequest env d (vpcIDPointer env d) ints)
             # replicate k (CallGet (d_GetString d ''project'') (d_GetString d ''service_name''))"
proof -
  let ?req = "createServiceRequest env d (vpcIDPointer env d) ints"
  let ?p = "d_GetString d ''project''"
  let ?g = "CallGet ?p (d_GetString d ''service_name'')"
  obtain r1 W1 where c: "callCreate env ?p ?req W = (r1, W1)"
    by (cases "callCreate env ?p ?req W")
  then have c1: "calls W1 = calls W @ [CallCreate ?p ?req]"
    by (auto simp: callCreate_def split: prod.splits)
  show ?thesis
  proof (cases r1)
    case (Inl err)
    with assms c have "snd (snd (resourceServiceCreate env d W)) = W1"
      by (simp add: resourceServiceCreate_def)
    with c1 have "calls (snd (snd (resourceServiceCreate env d W)))
                    = calls W @ CallCreate ?p ?req # replicate 0 ?g" by simp
    then show ?thesis by blast
  next
    case (Inr created)
    obtain r2 W2 where w: "resourceServiceWait env d ''create'' W1 = (r2, W2)"
      by (cases "resourceServiceWait env d ''create'' W1")
    from resourceServiceWait_calls [OF w] obtain k where
      k: "calls W2 = calls W1 @ replicate k ?g" by blast
    have "snd (snd (resourceServiceCreate env d W)) = W2"
      using assms c Inr w
      by (auto simp: resourceServiceCreate_def Let_def split: sum.splits prod.splits)
    with k c1 have "calls (snd (snd (resourceServiceCreate env d W)))
                      = calls W @ CallCreate ?p ?req # replicate k ?g" by simp
    then show ?thesis by blast
  qed
qed

text \<open>
  An update that passes the integration guard sends its request first and then only polls.
\<close>

lemma resourceServiceUpdate_trace:
  assumes "\<not> (HasChanges d ''service_integrations''
               \<and> d_GetList d ''service_integrations'' \<noteq> [])"
  shows "\<exists>k. calls (snd (snd (resourceServiceUpdate env d W))) =
           calls W @ CallUpdate (fst (splitResourceID2 env (resourceId d)))
                       (snd (splitResourceID2 env (resourceId d)))
                       (updateServiceRequest env d (vpcIDPointer env d))
             # replicate k (CallGet (d_GetString d ''project'') (d_GetString d ''service_name''))"
proof -
  obtain p n where ps: "splitResourceID2 env (resourceId d) = (p, n)"
    by (cases "splitResourceID2 env (resourceId d)")
  let ?req = "updateServiceRequest env d (vpcIDPointer env d)"
  let ?g = "CallGet (d_GetString d ''project'') (d_GetString d ''service_name'')"
  have u: "resourceServiceUpdate env d W =
             (case callUpdate env p n ?req W of
                (Inl err, W1) \<Rightarrow> (Failure err, d, W1)
              | (Inr updated, W1) \<Rightarrow>
                  (case resourceServiceWait env d ''update'' W1 of
                     (Inl err, W2) \<Rightarrow> (Failure err, d, W2)
                   | (Inr service, W2) \<Rightarrow>
                       (case copyServicePropertiesFromAPIResponseToTerraform env d service p of
                          (out, d1) \<Rightarrow> (out, d1, W2))))"
    using assms by (auto simp: resourceServiceUpdate_def ps)
  obtain r1 W1 where c: "callUpdate env p n ?req W = (r1, W1)"
    by (cases "callUpdate env p n ?req W")
  then have c1: "calls W1 = calls W @ [CallUpdate p n ?req]"
    by (auto simp: callUpdate_def split: prod.splits)
  show ?thesis
  proof (cases r1)
    case (Inl err)
    with u c have "snd (snd (resourceServiceUpdate env d W)) = W1" by simp
    with c1 have "calls (snd (snd (resourceServiceUpdate env d W)))
                    = calls W @ CallUpdate p n ?req # replicate 0 ?g" by simp
    then show ?thesis unfolding ps by (intro exI [of _ 0]) simp
  next
    case (Inr updated)
    obtain r2 W2 where w: "resourceServiceWait env d ''update'' W1 = (r2, W2)"
      by (cases "resourceServiceWait env d ''update'' W1")
    from resourceServiceWait_calls [OF w] obtain k where
      k: "calls W2 = calls W1 @ replicate k ?g" by blast
    have "snd (snd (resourceServiceUpdate env d W)) = W2"
      using u c Inr w by (auto split: sum.splits prod.splits)
    with k c1 have "calls (snd (snd (resourceServiceUpdate env d W)))
                      = calls W @ CallUpdate p n ?req # replicate k ?g" by simp
    then show ?thesis unfolding ps by (intro exI [of _ k]) simp
  qed
qed

section \<open>Assignments\<close>

lemma schemaKeys_assignAll [simp]: "schemaKeys (assignAll kvs d) = schemaKeys d"
  by (simp add: assignAll_def)

lemma resourceId_assignAll [simp]: "resourceId (assignAll kvs d) = resourceId d"
  by (simp add: assignAll_def)

lemma assignAll_Nil [simp]: "assignAll [] d = d"
  by (simp add: assignAll_def)

lemma assignAll_append: "assignAll (xs @ ys) d = assignAll ys (assignAll xs d)"
  by (simp add: assignAll_def)

lemma assignAll_Cons: "assignAll ((k, v) # kvs) d = assignAll kvs (assignAll [(k, v)] d)"
  by (simp add: assignAll_def)

lemma fold_upd_other:
  "k \<notin> fst ` set kvs \<Longrightarrow> fold (\<lambda>(k, v) m. m(k \<mapsto> v)) kvs m k = m k"
  by (induction kvs arbitrary: m) auto

lemma attrs_assignAll_other:
  "k \<notin> fst ` set kvs \<Longrightarrow> attrs (assignAll kvs d) k = attrs d k"
  by (simp add: assignAll_def fold_upd_other)

lemma d_Set_Success_iff:
  "d_Set d k v = (Success, d') \<longleftrightarrow> k \<in> set (schemaKeys d) \<and> d' = assignAll [(k, v)] d"
  by (auto simp: d_Set_def assignAll_def)

lemma setAll_Success_iff:
  "setAll d kvs = (Success, d') \<longleftrightarrow>
     fst ` set kvs \<subseteq> set (schemaKeys d) \<and> d' = assignAll kvs d"
proof (induction kvs arbitrary: d)
  case Nil
  show ?case by auto
next
  case (Cons kv kvs)
  obtain k v where kv: "kv = (k, v)" by (cases kv)
  show ?case
  proof (cases "k \<in> set (schemaKeys d)")
    case True
    then have "d_Set d k v = (Success, assignAll [(k, v)] d)"
      by (simp add: d_Set_Success_iff)
    then show ?thesis
      using Cons.IH [of "assignAll [(k, v)] d"] True kv assignAll_Cons [of k v kvs d]
      by simp
  next
    case False
    then show ?thesis using kv by (simp add: d_Set_def)
  qed
qed

lemma andThen_Success_iff:
  "andThen r f = (Success, d') \<longleftrightarrow> (\<exists>d1. r = (Success, d1) \<and> f d1 = (Success, d'))"
  by (cases r; cases "fst r") (auto simp: andThen_def)

lemma wrapErr_Success_iff: "wrapErr w r = (Success, d') \<longleftrightarrow> r = (Success, d')"
  by (cases r; cases "fst r") (auto simp: wrapErr_def)

section \<open>Fatal outcomes\<close>





lemmas ServiceType_defs =
  ServiceTypePG_def ServiceTypeCassandra_def ServiceTypeElasticsearch_def
  ServiceTypeOpensearch_def ServiceTypeGrafana_def ServiceTypeInfluxDB_def
  ServiceTypeRedis_def ServiceTypeMySQL_def ServiceTypeKafka_def ServiceTypeKafkaConnect_def
  ServiceTypeKafkaMirrormaker_def ServiceTypeM3_def ServiceTypeM3Aggregator_def
  ServiceTypeFlink_def

lemma validServiceType_cases:
  "validServiceType t \<longleftrightarrow>
     t = ''pg'' \<or> t = ''cassandra'' \<or> t = ''elasticsearch'' \<or> t = ''grafana''
     \<or> t = ''influxdb'' \<or> t = ''redis'' \<or> t = ''mysql'' \<or> t = ''kafka''
     \<or> t = ''kafka_connect'' \<or> t = ''kafka_mirrormaker'' \<or> t = ''m3db''
     \<or> t = ''m3aggregator'' \<or> t = ''opensearch'' \<or> t = ''flink''"
  by (simp add: validServiceType_def availableServiceTypes_def ServiceType_defs)

lemma connectionProps_None_iff:
  "connectionProps t ci = None \<longleftrightarrow> \<not> validServiceType t"
  unfolding validServiceType_cases connectionProps_def by auto



section \<open>Steps as assignments\<close>

lemma succeedsAs_setAll: "succeedsAs (setAll d kvs) d kvs"
  by (simp add: succeedsAs_def setAll_Success_iff)

lemma succeedsAs_d_Set: "succeedsAs (d_Set d k v) d [(k, v)]"
  by (simp add: succeedsAs_def d_Set_Success_iff)

lemma succeedsAs_skip: "succeedsAs (Success, d) d []"
  by (auto simp: succeedsAs_def)

lemma succeedsAs_wrapErr: "succeedsAs r d kvs \<Longrightarrow> succeedsAs (wrapErr w r) d kvs"
  by (simp add: succeedsAs_def wrapErr_Success_iff)

lemma succeedsAs_andThen:
  assumes r: "succeedsAs r d xs"
    and f: "\<And>d1. schemaKeys d1 = schemaKeys d \<Longrightarrow> succeedsAs (f d1) d1 ys"
  shows "succeedsAs (andThen r f) d (xs @ ys)"
proof -
  have "andThen r f = (Success, d') \<longleftrightarrow>
          fst ` set (xs @ ys) \<subseteq> set (schemaKeys d) \<and> d' = assignAll (xs @ ys) d" for d'
  proof
    assume "andThen r f = (Success, d')"
    then obtain d1 where r1: "r = (Success, d1)" and f1: "f d1 = (Success, d')"
      by (auto simp: andThen_Success_iff)
    from r r1 have x: "fst ` set xs \<subseteq> set (schemaKeys d)" and d1: "d1 = assignAll xs d"
      by (auto simp: succeedsAs_def)
    from d1 have "schemaKeys d1 = schemaKeys d" by simp
    from f [OF this] f1 have "fst ` set ys \<subseteq> set (schemaKeys d1)" and "d' = assignAll ys d1"
      by (auto simp: succeedsAs_def)
    with x d1 show "fst ` set (xs @ ys) \<subseteq> set (schemaKeys d) \<and> d' = assignAll (xs @ ys) d"
      by (simp add: assignAll_append image_Un)
  next
    assume a: "fst ` set (xs @ ys) \<subseteq> set (schemaKeys d) \<and> d' = assignAll (xs @ ys) d"
    let ?d1 = "assignAll xs d"
    from a r have r1: "r = (Success, ?d1)" by (simp add: succeedsAs_def image_Un)
    have "schemaKeys ?d1 = schemaKeys d" by simp
    from f [OF this] a have "f ?d1 = (Success, d')"
      by (simp add: succeedsAs_def image_Un assignAll_append)
    with r1 show "andThen r f = (Success, d')" by (simp add: andThen_Success_iff)
  qed
  then show ?thesis by (simp add: succeedsAs_def)
qed

lemma succeedsAs_copyConnectionInfo:
  "connectionProps t ci = Some props \<Longrightarrow>
   succeedsAs (copyConnectionInfoFromAPIResponseToTerraform d t ci) d [(t, TList [TMap props])]"
  by (simp add: copyConnectionInfoFromAPIResponseToTerraform_def succeedsAs_d_Set)

lemma succeedsAs_vpc:
  "succeedsAs (case vo of None \<Rightarrow> (Success, d) | Some vpc \<Rightarrow> d_Set d k (f vpc)) d
     (case vo of None \<Rightarrow> [] | Some vpc \<Rightarrow> [(k, f vpc)])"
  by (cases vo) (simp_all add: succeedsAs_skip succeedsAs_d_Set)

lemma succeedsAs_copyServiceProperties:
  assumes "connectionProps (effectiveServiceType d service) (ConnectionInfo service) = Some props"
  shows "succeedsAs (copyServicePropertiesFromAPIResponseToTerraform env d service project) d
           (copyAssignments env (effectiveServiceType d service) service project props)"
proof -
  let ?t = "effectiveServiceType d service"
  have "succeedsAs (copyServicePropertiesFromAPIResponseToTerraform env d service project) d
     (((((
     [(''cloud_name'', TString (CloudName service)),
      (''service_name'', TString (Name service)),
      (''state'', TString (State service)),
      (''plan'', TString (Plan service)),
      (''service_type'', TString ?t),
      (''termination_protection'', TBool (TerminationProtection service)),
      (''maintenance_window_dow'', TString (DayOfWeek (MaintenanceWindow service))),
      (''maintenance_window_time'', TString (TimeOfDay (MaintenanceWindow service))),
      (''service_uri'', TString (URI service)),
      (''project'', TString project)]
     @ (case ProjectVPCID service of
          None \<Rightarrow> []
        | Some vpc \<Rightarrow> [(''project_vpc_id'', TString (buildResourceID [project, vpc]))]))
     @ [(?t @ ''_user_config'',
           ConvertAPIUserConfigToTerraformCompatibleFormat env
             ''service'' ?t (UserConfig service))])
     @ ([(''service_host'',
           TString (case URIParams service ''host'' of None \<Rightarrow> [] | Some h \<Rightarrow> h)),
        (''service_port'',
           TInt (fst (ParseInt32
             (case URIParams service ''port'' of None \<Rightarrow> [] | Some p \<Rightarrow> p))))]
     @ (case URIParams service ''password'' of
          None \<Rightarrow> []
        | Some password \<Rightarrow> [(''service_password'', TString password)])
     @ (case URIParams service ''user'' of
          None \<Rightarrow> []
        | Some username \<Rightarrow> [(''service_username'', TString username)])))
     @ [(''components'', TList (flattenServiceComponents service))])
     @ [(?t, TList [TMap props])])"
    unfolding copyServicePropertiesFromAPIResponseToTerraform_def Let_def
    by (intro succeedsAs_andThen succeedsAs_setAll succeedsAs_wrapErr succeedsAs_d_Set
          succeedsAs_vpc succeedsAs_copyConnectionInfo assms)
  then show ?thesis
    by (simp add: copyAssignments_def copyFixed_def copyVpc_def copyRest_def)
qed

lemma andThen_not_Success:
  "(\<And>d. fst (f d) \<noteq> Success) \<Longrightarrow> fst (andThen r f) \<noteq> Success"
  by (cases r; cases "fst r") (auto simp: andThen_def)

lemma copyServiceProperties_Success_valid:
  assumes "copyServicePropertiesFromAPIResponseToTerraform env d service project = (Success, d')"
  shows "validServiceType (effectiveServiceType d service)"
proof (rule ccontr)
  assume "\<not> validServiceType (effectiveServiceType d service)"
  then have n: "connectionProps (effectiveServiceType d service) (ConnectionInfo service) = None"
    by (simp add: connectionProps_None_iff)
  have "fst (copyServicePropertiesFromAPIResponseToTerraform env d service project) \<noteq> Success"
    unfolding copyServicePropertiesFromAPIResponseToTerraform_def Let_def
    by (rule andThen_not_Success) (simp add: copyConnectionInfoFromAPIResponseToTerraform_def n)
  with assms show False by simp
qed

lemma copyServiceProperties_Success:
  assumes "copyServicePropertiesFromAPIResponseToTerraform env d service project = (Success, d')"
  obtains props where
    "connectionProps (effectiveServiceType d service) (ConnectionInfo service) = Some props"
    "fst ` set (copyAssignments env (effectiveServiceType d service) service project props)
       \<subseteq> set (schemaKeys d)"
    "d' = assignAll
            (copyAssignments env (effectiveServiceType d service) service project props) d"
proof -
  from copyServiceProperties_Success_valid [OF assms]
  obtain props where
    p: "connectionProps (effectiveServiceType d service) (ConnectionInfo service) = Some props"
    using connectionProps_None_iff [of "effectiveServiceType d service" "ConnectionInfo service"]
    by auto
  from succeedsAs_copyServiceProperties [OF p, of env project] assms
  have "fst ` set (copyAssignments env (effectiveServiceType d service) service project props)
          \<subseteq> set (schemaKeys d)
        \<and> d' = assignAll
            (copyAssignments env (effectiveServiceType d service) service project props) d"
    unfolding succeedsAs_def by blast
  with that p show thesis by blast
qed

lemma copyServiceProperties_SuccessI:
  assumes "connectionProps (effectiveServiceType d service) (ConnectionInfo service) = Some props"
    and "fst ` set (copyAssignments env (effectiveServiceType d service) service project props)
           \<subseteq> set (schemaKeys d)"
  shows "copyServicePropertiesFromAPIResponseToTerraform env d service project
           = (Success,
              assignAll (copyAssignments env (effectiveServiceType d service) service project props) d)"
  using succeedsAs_copyServiceProperties [OF assms(1), of env project] assms(2)
  unfolding succeedsAs_def by blast

lemma effectiveServiceType_valid:
  "validServiceType (d_GetString d ''service_type'') \<Longrightarrow>
   effectiveServiceType d service = d_GetString d ''service_type''"
  unfolding validServiceType_cases by (auto simp: effectiveServiceType_def)

section \<open>What a copy leaves in the record\<close>

lemma keys_copyVpc: "fst ` set (copyVpc service project) \<subseteq> {''project_vpc_id''}"
  by (auto simp: copyVpc_def split: option.splits)

lemma keys_copyRest:
  "fst ` set (copyRest env t service props)
     \<subseteq> {t @ ''_user_config'', ''service_host'', ''service_port'', ''service_password'',
         ''service_username'', ''components'', t}"
  by (auto simp: copyRest_def split: option.splits)

lemma valid_not_common:
  assumes "validServiceType t"
  shows "t \<notin> set serviceCommonSchema" and "t @ ''_user_config'' \<notin> set serviceCommonSchema"
  using assms unfolding validServiceType_cases serviceCommonSchema_def
  by (elim disjE; simp)+

lemma attrs_after_rest:
  assumes "validServiceType t" and "k \<in> set serviceCommonSchema"
    and "k \<notin> {''service_host'', ''service_port'', ''service_password'',
               ''service_username'', ''components''}"
  shows "attrs (assignAll (copyRest env t service props) d) k = attrs d k"
proof -
  from valid_not_common [OF assms(1)] assms(2) have "k \<noteq> t" "k \<noteq> t @ ''_user_config''"
    by auto
  with assms(3) keys_copyRest [of env t service props]
  have "k \<notin> fst ` set (copyRest env t service props)" by blast
  then show ?thesis by (rule attrs_assignAll_other)
qed

lemma attrs_after_vpc:
  "k \<noteq> ''project_vpc_id'' \<Longrightarrow> attrs (assignAll (copyVpc service project) d) k = attrs d k"
  using keys_copyVpc [of service project] by (intro attrs_assignAll_other) blast

lemma attrs_copyAssignments_fixed:
  fixes env :: "'w Env" and d :: ResourceData and service :: Service
    and project :: string and props :: "(string \<times> tfval) list"
  assumes "validServiceType t"
  defines "d' \<equiv> assignAll (copyAssignments env t service project props) d"
  shows "attrs d' ''cloud_name'' = Some (TString (CloudName service))"
    and "attrs d' ''service_name'' = Some (TString (Name service))"
    and "attrs d' ''state'' = Some (TString (State service))"
    and "attrs d' ''plan'' = Some (TString (Plan service))"
    and "attrs d' ''service_type'' = Some (TString t)"
    and "attrs d' ''termination_protection'' = Some (TBool (TerminationProtection service))"
    and "attrs d' ''maintenance_window_dow''
           = Some (TString (DayOfWeek (MaintenanceWindow service)))"
    and "attrs d' ''maintenance_window_time''
           = Some (TString (TimeOfDay (MaintenanceWindow service)))"
    and "attrs d' ''service_uri'' = Some (TString (URI service))"
    and "attrs d' ''project'' = Some (TString project)"
  unfolding d'_def copyAssignments_def assignAll_append
  by (simp_all add: attrs_after_rest [OF assms(1)] attrs_after_vpc serviceCommonSchema_def)
     (simp_all add: assignAll_def copyFixed_def)

lemma attrs_copyAssignments_vpc:
  assumes "validServiceType t"
  shows "attrs (assignAll (copyAssignments env t service project props) d) ''project_vpc_id''
           = (case ProjectVPCID service of
                None \<Rightarrow> attrs d ''project_vpc_id''
              | Some vpc \<Rightarrow> Some (TString (buildResourceID [project, vpc])))"
  unfolding copyAssignments_def assignAll_append
  by (simp add: attrs_after_rest [OF assms(1)] serviceCommonSchema_def)
     (simp add: assignAll_def copyFixed_def copyVpc_def split: option.splits)




section \<open>The waiter\<close>

lemma WaitForStateContext_pending:
  assumes "Services_Get env (Project w) (WaiterServiceName w) (remote W) = (Inr s, w')"
    and "classifyState env (Operation w) s = Pending"
  shows "WaitForStateContext env w (Suc budget) W =
           WaitForStateContext env w budget
             \<lparr>remote = w', calls = calls W @ [CallGet (Project w) (WaiterServiceName w)]\<rparr>"
  using assms by (simp add: callGet_def)

lemma WaitForStateContext_success:
  assumes "Services_Get env (Project w) (WaiterServiceName w) (remote W) = (Inr s, w')"
    and "classifyState env (Operation w) s = TerminalSuccess"
  shows "WaitForStateContext env w (Suc budget) W =
           (Inr s, \<lparr>remote = w', calls = calls W @ [CallGet (Project w) (WaiterServiceName w)]\<rparr>)"
  using assms by (simp add: callGet_def)

lemma WaitForStateContext_failure:
  assumes "Services_Get env (Project w) (WaiterServiceName w) (remote W) = (Inr s, w')"
    and "classifyState env (Operation w) s = TerminalFailure"
  shows "WaitForStateContext env w (Suc budget) W =
           (Inl (OperationFailed (State s)),
            \<lparr>remote = w', calls = calls W @ [CallGet (Project w) (WaiterServiceName w)]\<rparr>)"
  using assms by (simp add: callGet_def)

text \<open>A remote that stays pending uses up any budget: exactly \<open>budget\<close> polls, then a timeout.\<close>

lemma WaitForStateContext_always_pending:
  assumes "\<And>v. \<exists>s v'. Services_Get env (Project w) (WaiterServiceName w) v = (Inr s, v')
                    \<and> classifyState env (Operation w) s = Pending"
  shows "\<exists>W'. WaitForStateContext env w budget W = (Inl OperationTimedOut, W')
           \<and> calls W' = calls W @ replicate budget (CallGet (Project w) (WaiterServiceName w))"
proof (induction budget arbitrary: W)
  case 0
  show ?case by simp
next
  case (Suc budget)
  from assms [of "remote W"] obtain s v' where
    g: "Services_Get env (Project w) (WaiterServiceName w) (remote W) = (Inr s, v')"
    and p: "classifyState env (Operation w) s = Pending" by blast
  let ?W1 = "\<lparr>remote = v', calls = calls W @ [CallGet (Project w) (WaiterServiceName w)]\<rparr>"
  from Suc.IH [of ?W1] obtain W' where
    "WaitForStateContext env w budget ?W1 = (Inl OperationTimedOut, W')"
    "calls W' = calls ?W1 @ replicate budget (CallGet (Project w) (WaiterServiceName w))"
    by blast
  with WaitForStateContext_pending [OF g p, of budget] show ?case
    by (simp add: replicate_append_same)
qed

text \<open>
  C8. Waiter terminal classification: on the observations pending, pending, success the
  waiter returns the third representation after exactly three polls; on two pending
  observations with a budget of two polls it fails with \<open>OperationTimedOut\<close> after two
  polls; on pending, failure it fails with \<open>OperationFailed\<close> carrying the state the
  remote reported.
\<close>

theorem waiter_terminal_classification:
  fixes env :: "'w Env" and w :: ServiceChangeWaiter
  defines "get \<equiv> Services_Get env (Project w) (WaiterServiceName w)"
  defines "poll \<equiv> CallGet (Project w) (WaiterServiceName w)"
  shows
  "(get w0 = (Inr s1, w1) \<and> classifyState env (Operation w) s1 = Pending
      \<and> get w1 = (Inr s2, w2) \<and> classifyState env (Operation w) s2 = Pending
      \<and> get w2 = (Inr s3, w3) \<and> classifyState env (Operation w) s3 = TerminalSuccess
      \<and> 3 \<le> budget
    \<longrightarrow> WaitForStateContext env w budget \<lparr>remote = w0, calls = cs\<rparr>
          = (Inr s3, \<lparr>remote = w3, calls = cs @ [poll, poll, poll]\<rparr>))
   \<and> (get w0 = (Inr s1, w1) \<and> classifyState env (Operation w) s1 = Pending
      \<and> get w1 = (Inr s2, w2) \<and> classifyState env (Operation w) s2 = Pending
    \<longrightarrow> WaitForStateContext env w 2 \<lparr>remote = w0, calls = cs\<rparr>
          = (Inl OperationTimedOut, \<lparr>remote = w2, calls = cs @ [poll, poll]\<rparr>))
   \<and> (get w0 = (Inr s1, w1) \<and> classifyState env (Operation w) s1 = Pending
      \<and> get w1 = (Inr s2, w2) \<and> classifyState env (Operation w) s2 = TerminalFailure
      \<and> 2 \<le> budget
    \<longrightarrow> WaitForStateContext env w budget \<lparr>remote = w0, calls = cs\<rparr>
          = (Inl (OperationFailed (State s2)), \<lparr>remote = w2, calls = cs @ [poll, poll]\<rparr>))"
proof (intro conjI impI)
  assume a: "get w0 = (Inr s1, w1) \<and> classifyState env (Operation w) s1 = Pending
      \<and> get w1 = (Inr s2, w2) \<and> classifyState env (Operation w) s2 = Pending
      \<and> get w2 = (Inr s3, w3) \<and> classifyState env (Operation w) s3 = TerminalSuccess
      \<and> 3 \<le> budget"
  then obtain k where "budget = Suc (Suc (Suc k))"
    by (metis Suc_le_D numeral_3_eq_3 Suc_le_mono)
  with a show "WaitForStateContext env w budget \<lparr>remote = w0, calls = cs\<rparr>
          = (Inr s3, \<lparr>remote = w3, calls = cs @ [poll, poll, poll]\<rparr>)"
    by (simp add: get_def poll_def callGet_def)
next
  assume a: "get w0 = (Inr s1, w1) \<and> classifyState env (Operation w) s1 = Pending
      \<and> get w1 = (Inr s2, w2) \<and> classifyState env (Operation w) s2 = Pending"
  then show "WaitForStateContext env w 2 \<lparr>remote = w0, calls = cs\<rparr>
          = (Inl OperationTimedOut, \<lparr>remote = w2, calls = cs @ [poll, poll]\<rparr>)"
    by (simp add: get_def poll_def callGet_def numeral_2_eq_2)
next
  assume a: "get w0 = (Inr s1, w1) \<and> classifyState env (Operation w) s1 = Pending
      \<and> get w1 = (Inr s2, w2) \<and> classifyState env (Operation w) s2 = TerminalFailure
      \<and> 2 \<le> budget"
  then obtain k where "budget = Suc (Suc k)"
    by (metis Suc_le_D numeral_2_eq_2 Suc_le_mono)
  with a show "WaitForStateContext env w budget \<lparr>remote = w0, calls = cs\<rparr>
          = (Inl (OperationFailed (State s2)), \<lparr>remote = w2, calls = cs @ [poll, poll]\<rparr>)"
    by (simp add: get_def poll_def callGet_def)
qed

theorem waiter_terminal_classification_witness:
  "WaitForStateContext
      (scriptedEnv [exampleService ''pg'' ''REBUILDING'', exampleService ''pg'' ''REBUILDING'',
                    exampleService ''pg'' ''RUNNING''] None)
      \<lparr>Operation = ''create'', Project = ''proj'', WaiterServiceName = ''svc1''\<rparr> 120 emptyWorld
     = (Inr (exampleService ''pg'' ''RUNNING''),
        \<lparr>remote = 3, calls = [CallGet ''proj'' ''svc1'', CallGet ''proj'' ''svc1'',
                               CallGet ''proj'' ''svc1'']\<rparr>)
   \<and> WaitForStateContext
      (scriptedEnv (replicate 5 (exampleService ''pg'' ''REBUILDING'')) None)
      \<lparr>Operation = ''create'', Project = ''proj'', WaiterServiceName = ''svc1''\<rparr> 2 emptyWorld
     = (Inl OperationTimedOut,
        \<lparr>remote = 2, calls = [CallGet ''proj'' ''svc1'', CallGet ''proj'' ''svc1'']\<rparr>)
   \<and> WaitForStateContext
      (scriptedEnv [exampleService ''pg'' ''REBUILDING'', exampleService ''pg'' ''POWEROFF''] None)
      \<lparr>Operation = ''create'', Project = ''proj'', WaiterServiceName = ''svc1''\<rparr> 120 emptyWorld
     = (Inl (OperationFailed ''POWEROFF''),
        \<lparr>remote = 2, calls = [CallGet ''proj'' ''svc1'', CallGet ''proj'' ''svc1'']\<rparr>)"
proof -
  let ?w = "\<lparr>Operation = ''create'', Project = ''proj'', WaiterServiceName = ''svc1''\<rparr>"
  let ?p = "exampleService ''pg'' ''REBUILDING''"
  let ?r = "exampleService ''pg'' ''RUNNING''"
  let ?f = "exampleService ''pg'' ''POWEROFF''"
  have st: "State ?p = ''REBUILDING''" "State ?r = ''RUNNING''" "State ?f = ''POWEROFF''"
    by (simp_all add: exampleService_def)
  have a: "WaitForStateContext (scriptedEnv [?p, ?p, ?r] None) ?w 120 \<lparr>remote = 0, calls = []\<rparr>
             = (Inr ?r, \<lparr>remote = Suc (Suc (Suc 0)), calls = [] @
                  [CallGet (Project ?w) (WaiterServiceName ?w),
                   CallGet (Project ?w) (WaiterServiceName ?w),
                   CallGet (Project ?w) (WaiterServiceName ?w)]\<rparr>)"
    by (rule waiter_terminal_classification
               [where env = "scriptedEnv [?p, ?p, ?r] None" and w = ?w and budget = 120
                  and ?w0.0 = 0 and ?w1.0 = "Suc 0" and ?w2.0 = "Suc (Suc 0)"
                  and ?w3.0 = "Suc (Suc (Suc 0))"
                  and ?s1.0 = ?p and ?s2.0 = ?p and ?s3.0 = ?r and cs = "[]",
                THEN conjunct1, THEN mp])
       (simp add: scriptedEnv_def st)
  have b: "WaitForStateContext (scriptedEnv (replicate 5 ?p) None) ?w 2 \<lparr>remote = 0, calls = []\<rparr>
             = (Inl OperationTimedOut, \<lparr>remote = Suc (Suc 0), calls = [] @
                  [CallGet (Project ?w) (WaiterServiceName ?w),
                   CallGet (Project ?w) (WaiterServiceName ?w)]\<rparr>)"
    by (rule waiter_terminal_classification
               [where env = "scriptedEnv (replicate 5 ?p) None" and w = ?w
                  and ?w0.0 = 0 and ?w1.0 = "Suc 0" and ?w2.0 = "Suc (Suc 0)"
                  and ?s1.0 = ?p and ?s2.0 = ?p and cs = "[]",
                THEN conjunct2, THEN conjunct1, THEN mp])
       (simp add: scriptedEnv_def st eval_nat_numeral)
  have c: "WaitForStateContext (scriptedEnv [?p, ?f] None) ?w 120 \<lparr>remote = 0, calls = []\<rparr>
             = (Inl (OperationFailed (State ?f)), \<lparr>remote = Suc (Suc 0), calls = [] @
                  [CallGet (Project ?w) (WaiterServiceName ?w),
                   CallGet (Project ?w) (WaiterServiceName ?w)]\<rparr>)"
    by (rule waiter_terminal_classification
               [where env = "scriptedEnv [?p, ?f] None" and w = ?w and budget = 120
                  and ?w0.0 = 0 and ?w1.0 = "Suc 0" and ?w2.0 = "Suc (Suc 0)"
                  and ?s1.0 = ?p and ?s2.0 = ?f and cs = "[]",
                THEN conjunct2, THEN conjunct2, THEN mp])
       (simp add: scriptedEnv_def st)
  from a b c show ?thesis
    by (simp add: emptyWorld_def st numeral_3_eq_3 numeral_2_eq_2)
qed

section \<open>Concrete runs against the scripted remote\<close>

lemma setAll_SuccessI:
  "fst ` set kvs \<subseteq> set (schemaKeys d) \<Longrightarrow> setAll d kvs = (Success, assignAll kvs d)"
  by (simp add: setAll_Success_iff)

lemma WaitForStateContext_success_pos:
  assumes "0 < budget"
    and "Services_Get env (Project w) (WaiterServiceName w) (remote W) = (Inr s, w')"
    and "classifyState env (Operation w) s = TerminalSuccess"
  shows "WaitForStateContext env w budget W =
           (Inr s, \<lparr>remote = w', calls = calls W @ [CallGet (Project w) (WaiterServiceName w)]\<rparr>)"
proof -
  from assms(1) obtain k where "budget = Suc k" by (cases budget) auto
  with WaitForStateContext_success [OF assms(2,3), of k] show ?thesis by simp
qed

lemma split_proj_svc1:
  "splitResourceID2 (scriptedEnv script deleteError) ''proj/svc1'' = (''proj'', ''svc1'')"
  by (simp add: scriptedEnv_def decodeTwo_def splitResourceID_def)

text \<open>
  Against a remote whose first read reports a running service, the wait is one poll.
\<close>

lemma running_wait:
  assumes "d_GetString d ''project'' = ''proj''" and "d_GetString d ''service_name'' = ''svc1''"
    and "0 < timeoutCreate d" and "0 < timeoutUpdate d"
  shows "resourceServiceWait (scriptedEnv (exampleService t ''RUNNING'' # rest) None) d operation
           \<lparr>remote = 0, calls = cs\<rparr>
         = (Inr (exampleService t ''RUNNING''),
            \<lparr>remote = Suc 0, calls = cs @ [CallGet ''proj'' ''svc1'']\<rparr>)"
proof -
  let ?env = "scriptedEnv (exampleService t ''RUNNING'' # rest) None"
  let ?w = "\<lparr>Operation = operation, Project = ''proj'', WaiterServiceName = ''svc1''\<rparr>"
  let ?b = "if operation = ''create'' then timeoutCreate d else timeoutUpdate d"
  have b: "0 < ?b" using assms(3,4) by simp
  have g: "Services_Get ?env (Project ?w) (WaiterServiceName ?w) (remote \<lparr>remote = 0, calls = cs\<rparr>)
             = (Inr (exampleService t ''RUNNING''), Suc 0)"
    by (simp add: scriptedEnv_def)
  have c: "classifyState ?env (Operation ?w) (exampleService t ''RUNNING'') = TerminalSuccess"
    by (simp add: scriptedEnv_def exampleService_def)
  from WaitForStateContext_success_pos [OF b g c]
  show ?thesis by (simp add: resourceServiceWait_def assms(1,2) Let_def)
qed

lemma example_copy:
  assumes t: "d_GetString d ''service_type'' = ''pg''"
    and k: "schemaKeys d = aivenServiceSchema"
  shows "copyServicePropertiesFromAPIResponseToTerraform env d (exampleService ''pg'' st) ''proj''
           = (Success,
              assignAll (copyAssignments env ''pg'' (exampleService ''pg'' st) ''proj''
                           (pgProps noConnectionInfo)) d)"
proof -
  have e: "effectiveServiceType d (exampleService ''pg'' st) = ''pg''"
    by (simp add: effectiveServiceType_def t)
  have p: "connectionProps ''pg'' (ConnectionInfo (exampleService ''pg'' st))
             = Some (pgProps noConnectionInfo)"
    by (simp add: connectionProps_def exampleService_def)
  have s: "fst ` set (copyAssignments env ''pg'' (exampleService ''pg'' st) ''proj''
                        (pgProps noConnectionInfo)) \<subseteq> set (schemaKeys d)"
    by (simp add: copyAssignments_def copyFixed_def copyVpc_def copyRest_def exampleService_def
          k aivenServiceSchema_def)
  from copyServiceProperties_SuccessI [of d "exampleService ''pg'' st"
         "pgProps noConnectionInfo" env "''proj''"] e p s
  show ?thesis by simp
qed

section \<open>Delete\<close>

text \<open>
  C4. Delete idempotence: whatever the identity, Delete makes the one remote delete call
  for the two strings the identity decodes to; when the remote answers with an error,
  Delete succeeds if the error is a not-found and fails with that very error otherwise,
  and it leaves the record as it was.
\<close>

theorem delete_not_found_is_success:
  assumes "Services_Delete env (fst (splitResourceID2 env (resourceId d)))
             (snd (splitResourceID2 env (resourceId d))) (remote W) = (Some err, w')"
  shows "resourceServiceDelete env d W =
           (if IsNotFound err then Success else Failure err, d,
            \<lparr>remote = w',
               calls = calls W @ [CallDelete (fst (splitResourceID2 env (resourceId d)))
                                    (snd (splitResourceID2 env (resourceId d)))]\<rparr>)"
proof -
  obtain p n where ps: "splitResourceID2 env (resourceId d) = (p, n)"
    by (cases "splitResourceID2 env (resourceId d)")
  with assms show ?thesis
    by (simp add: resourceServiceDelete_def callDelete_def)
qed

theorem delete_not_found_is_success_witness:
  "resourceServiceDelete (scriptedEnv [] (Some (APIError 404 ''Service not found'')))
       (existingService [] []) emptyWorld
     = (Success, existingService [] [], \<lparr>remote = 0, calls = [CallDelete ''proj'' ''svc1'']\<rparr>)
   \<and> resourceServiceDelete (scriptedEnv [] (Some (APIError 403 ''Forbidden'')))
       ((existingService [] [])\<lparr>resourceId := ''proj/svc%1''\<rparr>) emptyWorld
     = (Failure (APIError 403 ''Forbidden''),
        (existingService [] [])\<lparr>resourceId := ''proj/svc%1''\<rparr>,
        \<lparr>remote = 0, calls = [CallDelete [] []]\<rparr>)"
proof -
  let ?e4 = "scriptedEnv [] (Some (APIError 404 ''Service not found''))"
  let ?e3 = "scriptedEnv [] (Some (APIError 403 ''Forbidden''))"
  let ?d = "existingService [] []"
  let ?m = "(existingService [] [])\<lparr>resourceId := ''proj/svc%1''\<rparr>"
  have i: "splitResourceID2 ?e4 (resourceId ?d) = (''proj'', ''svc1'')"
    by (simp add: existingService_def split_proj_svc1)
  have j0: "splitResourceID2 ?e3 ''proj/svc%1'' = ([], [])"
    by (simp add: scriptedEnv_def decodeTwo_def splitResourceID_def)
  then have j: "splitResourceID2 ?e3 (resourceId ?m) = ([], [])" by simp
  have a: "Services_Delete ?e4 (fst (splitResourceID2 ?e4 (resourceId ?d)))
             (snd (splitResourceID2 ?e4 (resourceId ?d))) (remote emptyWorld)
           = (Some (APIError 404 ''Service not found''), 0)"
    by (simp add: scriptedEnv_def emptyWorld_def)
  have b: "Services_Delete ?e3 (fst (splitResourceID2 ?e3 (resourceId ?m)))
             (snd (splitResourceID2 ?e3 (resourceId ?m))) (remote emptyWorld)
           = (Some (APIError 403 ''Forbidden''), 0)"
    by (simp add: scriptedEnv_def emptyWorld_def)
  from delete_not_found_is_success [OF a] delete_not_found_is_success [OF b]
  show ?thesis by (simp add: i j j0 emptyWorld_def)
qed

section \<open>Update\<close>

lemma removal_update_run:
  "resourceServiceUpdate (scriptedEnv [exampleService ''pg'' ''RUNNING''] None)
       (existingService [readReplica] []) emptyWorld
     = (Success,
        assignAll (copyAssignments (scriptedEnv [exampleService ''pg'' ''RUNNING''] None) ''pg''
                     (exampleService ''pg'' ''RUNNING'') ''proj'' (pgProps noConnectionInfo))
          (existingService [readReplica] []),
        \<lparr>remote = Suc 0,
           calls = [CallUpdate ''proj'' ''svc1''
                      (updateServiceRequest (scriptedEnv [exampleService ''pg'' ''RUNNING''] None)
                         (existingService [readReplica] []) None),
                    CallGet ''proj'' ''svc1'']\<rparr>)"
proof -
  let ?env = "scriptedEnv [exampleService ''pg'' ''RUNNING''] None"
  let ?d = "existingService [readReplica] []"
  have g: "d_GetString ?d ''project'' = ''proj''" "d_GetString ?d ''service_name'' = ''svc1''"
    "d_GetString ?d ''service_type'' = ''pg''" "d_GetList ?d ''service_integrations'' = []"
    "resourceId ?d = ''proj/svc1''" "schemaKeys ?d = aivenServiceSchema"
    "0 < timeoutCreate ?d" "0 < timeoutUpdate ?d"
    by (simp_all add: d_GetString_def d_GetList_def listOf_def existingService_def)
  have v: "vpcIDPointer ?env ?d = None"
    by (simp add: vpcIDPointer_def d_GetString_def existingService_def)
  have u: "callUpdate ?env ''proj'' ''svc1'' (updateServiceRequest ?env ?d None) emptyWorld
             = (Inr (exampleService ''pg'' ''RUNNING''),
                \<lparr>remote = 0, calls = [CallUpdate ''proj'' ''svc1''
                                         (updateServiceRequest ?env ?d None)]\<rparr>)"
    by (simp add: callUpdate_def scriptedEnv_def emptyWorld_def)
  show ?thesis
    unfolding resourceServiceUpdate_def
    by (simp add: g split_proj_svc1 v u running_wait [OF g(1,2,7,8)] example_copy [OF g(3,6)])
qed

text \<open>
  An update that removes the only service integration changes the list, yet it is not
  rejected: the update request is sent and the update succeeds.
\<close>

theorem integrations_removal_not_rejected:
  "HasChanges (existingService [readReplica] []) ''service_integrations''
   \<and> fst (resourceServiceUpdate (scriptedEnv [exampleService ''pg'' ''RUNNING''] None)
            (existingService [readReplica] []) emptyWorld) = Success
   \<and> calls (snd (snd (resourceServiceUpdate (scriptedEnv [exampleService ''pg'' ''RUNNING''] None)
            (existingService [readReplica] []) emptyWorld)))
       = [CallUpdate ''proj'' ''svc1''
            (updateServiceRequest (scriptedEnv [exampleService ''pg'' ''RUNNING''] None)
               (existingService [readReplica] []) None),
          CallGet ''proj'' ''svc1'']"
  by (simp add: removal_update_run)
     (simp add: HasChanges_def listOf_def existingService_def)

text \<open>
  C3 (as amended). Update rejection of integrations: an update that changes
  \<open>service_integrations\<close> and leaves the list non-empty fails with the validation error,
  with no remote call and with the record and the remote state untouched. (A change to
  the empty list passes the guard, as the run above shows.)
\<close>

theorem update_rejects_new_integrations:
  assumes "HasChanges d ''service_integrations''"
    and "d_GetList d ''service_integrations'' \<noteq> []"
  shows "resourceServiceUpdate env d W =
           (Failure (ValidationError
              ''service_integrations field can only be set during creation of a service''), d, W)"
  using assms by (simp add: resourceServiceUpdate_def)

theorem update_rejects_new_integrations_witness:
  "resourceServiceUpdate (scriptedEnv [exampleService ''pg'' ''RUNNING''] None)
       (existingService [] [readReplica]) emptyWorld
     = (Failure (ValidationError
          ''service_integrations field can only be set during creation of a service''),
        existingService [] [readReplica], emptyWorld)"
proof -
  have "HasChanges (existingService [] [readReplica]) ''service_integrations''"
    by (simp add: HasChanges_def listOf_def existingService_def)
  moreover have "d_GetList (existingService [] [readReplica]) ''service_integrations'' \<noteq> []"
    by (simp add: d_GetList_def listOf_def existingService_def)
  ultimately show ?thesis by (rule update_rejects_new_integrations)
qed

section \<open>Read\<close>





section \<open>Maintenance window\<close>

lemma create_rejected_run:
  "resourceServiceCreate (scriptedEnv [] None) (plannedService ''pg'') emptyWorld
     = (Failure (APIError 500 ''no service''), plannedService ''pg'',
        \<lparr>remote = 0, calls = [CallCreate ''proj''
           (createServiceRequest (scriptedEnv [] None) (plannedService ''pg'') None [])]\<rparr>)"
proof -
  have v: "vpcIDPointer (scriptedEnv [] None) (plannedService ''pg'') = None"
    by (simp add: vpcIDPointer_def d_GetString_def plannedService_def)
  have g: "d_GetList (plannedService ''pg'') ''service_integrations'' = []"
    "d_GetString (plannedService ''pg'') ''project'' = ''proj''"
    by (simp_all add: d_GetList_def listOf_def d_GetString_def plannedService_def)
  show ?thesis
    by (simp add: resourceServiceCreate_def v g callCreate_def emptyWorld_def)
       (simp add: scriptedEnv_def)
qed

lemma update_rejected_run:
  "resourceServiceUpdate (scriptedEnv [] None) (existingService [] []) emptyWorld
     = (Failure (APIError 500 ''no service''), existingService [] [],
        \<lparr>remote = 0, calls = [CallUpdate ''proj'' ''svc1''
           (updateServiceRequest (scriptedEnv [] None) (existingService [] []) None)]\<rparr>)"
proof -
  have v: "vpcIDPointer (scriptedEnv [] None) (existingService [] []) = None"
    by (simp add: vpcIDPointer_def d_GetString_def existingService_def)
  have g: "\<not> HasChanges (existingService [] []) ''service_integrations''"
    "resourceId (existingService [] []) = ''proj/svc1''"
    by (simp_all add: HasChanges_def listOf_def existingService_def)
  show ?thesis
    by (simp add: resourceServiceUpdate_def v g split_proj_svc1 callUpdate_def emptyWorld_def)
       (simp add: scriptedEnv_def)
qed

text \<open>
  C6. Maintenance window pairing: a create (once its integrations are read) and an update
  (once it has passed the integration guard) send their request as the first remote call,
  followed by polls only, and the request carries a maintenance window exactly when both
  the day-of-week and the time-of-day of the record are non-empty: the window made of the
  two, and no window otherwise.
\<close>

theorem maintenance_window_pairing:
  "(those (map integrationOf (d_GetList d ''service_integrations'')) \<noteq> None \<longrightarrow>
      (\<exists>req k.
         calls (snd (snd (resourceServiceCreate env d W))) =
           calls W @ CallCreate (d_GetString d ''project'') req
             # replicate k (CallGet (d_GetString d ''project'') (d_GetString d ''service_name''))
         \<and> ReqMaintenanceWindow req =
             (if d_GetString d ''maintenance_window_dow'' \<noteq> []
                 \<and> d_GetString d ''maintenance_window_time'' \<noteq> []
              then Some \<lparr>DayOfWeek = d_GetString d ''maintenance_window_dow'',
                         TimeOfDay = d_GetString d ''maintenance_window_time''\<rparr>
              else None)))
   \<and> (\<not> (HasChanges d ''service_integrations''
             \<and> d_GetList d ''service_integrations'' \<noteq> []) \<longrightarrow>
      (\<exists>ureq k.
         calls (snd (snd (resourceServiceUpdate env d W))) =
           calls W @ CallUpdate (fst (splitResourceID2 env (resourceId d)))
                       (snd (splitResourceID2 env (resourceId d))) ureq
             # replicate k (CallGet (d_GetString d ''project'') (d_GetString d ''service_name''))
         \<and> ReqMaintenanceWindow ureq =
             (if d_GetString d ''maintenance_window_dow'' \<noteq> []
                 \<and> d_GetString d ''maintenance_window_time'' \<noteq> []
              then Some \<lparr>DayOfWeek = d_GetString d ''maintenance_window_dow'',
                         TimeOfDay = d_GetString d ''maintenance_window_time''\<rparr>
              else None)))"
proof (intro conjI impI)
  assume "those (map integrationOf (d_GetList d ''service_integrations'')) \<noteq> None"
  then obtain ints where
    "those (map integrationOf (d_GetList d ''service_integrations'')) = Some ints" by blast
  from resourceServiceCreate_trace [OF this, of env W] obtain k where
    "calls (snd (snd (resourceServiceCreate env d W))) =
       calls W @ CallCreate (d_GetString d ''project'')
                   (createServiceRequest env d (vpcIDPointer env d) ints)
         # replicate k (CallGet (d_GetString d ''project'') (d_GetString d ''service_name''))"
    by blast
  moreover have "ReqMaintenanceWindow (createServiceRequest env d (vpcIDPointer env d) ints) =
             (if d_GetString d ''maintenance_window_dow'' \<noteq> []
                 \<and> d_GetString d ''maintenance_window_time'' \<noteq> []
              then Some \<lparr>DayOfWeek = d_GetString d ''maintenance_window_dow'',
                         TimeOfDay = d_GetString d ''maintenance_window_time''\<rparr>
              else None)"
    by (simp add: createServiceRequest_def getMaintenanceWindow_def Let_def)
  ultimately show "\<exists>req k.
         calls (snd (snd (resourceServiceCreate env d W))) =
           calls W @ CallCreate (d_GetString d ''project'') req
             # replicate k (CallGet (d_GetString d ''project'') (d_GetString d ''service_name''))
         \<and> ReqMaintenanceWindow req =
             (if d_GetString d ''maintenance_window_dow'' \<noteq> []
                 \<and> d_GetString d ''maintenance_window_time'' \<noteq> []
              then Some \<lparr>DayOfWeek = d_GetString d ''maintenance_window_dow'',
                         TimeOfDay = d_GetString d ''maintenance_window_time''\<rparr>
              else None)"
    by blast
next
  assume "\<not> (HasChanges d ''service_integrations''
             \<and> d_GetList d ''service_integrations'' \<noteq> [])"
  from resourceServiceUpdate_trace [OF this, of env W] obtain k where
    "calls (snd (snd (resourceServiceUpdate env d W))) =
       calls W @ CallUpdate (fst (splitResourceID2 env (resourceId d)))
                   (snd (splitResourceID2 env (resourceId d)))
                   (updateServiceRequest env d (vpcIDPointer env d))
         # replicate k (CallGet (d_GetString d ''project'') (d_GetString d ''service_name''))"
    by blast
  moreover have "ReqMaintenanceWindow (updateServiceRequest env d (vpcIDPointer env d)) =
             (if d_GetString d ''maintenance_window_dow'' \<noteq> []
                 \<and> d_GetString d ''maintenance_window_time'' \<noteq> []
              then Some \<lparr>DayOfWeek = d_GetString d ''maintenance_window_dow'',
                         TimeOfDay = d_GetString d ''maintenance_window_time''\<rparr>
              else None)"
    by (simp add: updateServiceRequest_def getMaintenanceWindow_def Let_def)
  ultimately show "\<exists>ureq k.
         calls (snd (snd (resourceServiceUpdate env d W))) =
           calls W @ CallUpdate (fst (splitResourceID2 env (resourceId d)))
                       (snd (splitResourceID2 env (resourceId d))) ureq
             # replicate k (CallGet (d_GetString d ''project'') (d_GetString d ''service_name''))
         \<and> ReqMaintenanceWindow ureq =
             (if d_GetString d ''maintenance_window_dow'' \<noteq> []
                 \<and> d_GetString d ''maintenance_window_time'' \<noteq> []
              then Some \<lparr>DayOfWeek = d_GetString d ''maintenance_window_dow'',
                         TimeOfDay = d_GetString d ''maintenance_window_time''\<rparr>
              else None)"
    by blast
qed

theorem maintenance_window_pairing_witness:
  "calls (snd (snd (resourceServiceCreate (scriptedEnv [] None) (plannedService ''pg'')
                      emptyWorld)))
     = [CallCreate ''proj''
          (createServiceRequest (scriptedEnv [] None) (plannedService ''pg'') None [])]
   \<and> ReqMaintenanceWindow
      (createServiceRequest (scriptedEnv [] None) (plannedService ''pg'') None [])
     = Some \<lparr>DayOfWeek = ''monday'', TimeOfDay = ''10:00:00''\<rparr>
   \<and> calls (snd (snd (resourceServiceUpdate (scriptedEnv [] None) (existingService [] [])
                      emptyWorld)))
     = [CallUpdate ''proj'' ''svc1''
          (updateServiceRequest (scriptedEnv [] None) (existingService [] []) None)]
   \<and> ReqMaintenanceWindow
      (updateServiceRequest (scriptedEnv [] None) (existingService [] []) None) = None"
proof -
  let ?env = "scriptedEnv [] None"
  let ?creq = "createServiceRequest ?env (plannedService ''pg'') None []"
  let ?ureq = "updateServiceRequest ?env (existingService [] []) None"
  have gc: "those (map integrationOf (d_GetList (plannedService ''pg'') ''service_integrations''))
              \<noteq> None"
    "d_GetString (plannedService ''pg'') ''maintenance_window_dow'' = ''monday''"
    "d_GetString (plannedService ''pg'') ''maintenance_window_time'' = ''10:00:00''"
    by (simp_all add: d_GetList_def listOf_def d_GetString_def plannedService_def)
  have gu: "\<not> (HasChanges (existingService [] []) ''service_integrations''
               \<and> d_GetList (existingService [] []) ''service_integrations'' \<noteq> [])"
    "d_GetString (existingService [] []) ''maintenance_window_dow'' = []"
    by (simp_all add: HasChanges_def d_GetList_def listOf_def d_GetString_def existingService_def)
  from maintenance_window_pairing
         [where d = "plannedService ''pg''" and env = ?env and W = emptyWorld,
          THEN conjunct1, THEN mp, OF gc(1)]
  obtain req k where
    "calls (snd (snd (resourceServiceCreate ?env (plannedService ''pg'') emptyWorld))) =
       calls emptyWorld @ CallCreate (d_GetString (plannedService ''pg'') ''project'') req
         # replicate k (CallGet (d_GetString (plannedService ''pg'') ''project'')
                          (d_GetString (plannedService ''pg'') ''service_name''))"
    and wc: "ReqMaintenanceWindow req = Some \<lparr>DayOfWeek = ''monday'', TimeOfDay = ''10:00:00''\<rparr>"
    unfolding gc(2,3) by auto
  then have "req = ?creq" by (simp add: create_rejected_run [unfolded emptyWorld_def] emptyWorld_def)
  with wc have c: "ReqMaintenanceWindow ?creq
                     = Some \<lparr>DayOfWeek = ''monday'', TimeOfDay = ''10:00:00''\<rparr>" by simp
  from maintenance_window_pairing
         [where d = "existingService [] []" and env = ?env and W = emptyWorld,
          THEN conjunct2, THEN mp, OF gu(1)]
  obtain ureq k where
    "calls (snd (snd (resourceServiceUpdate ?env (existingService [] []) emptyWorld))) =
       calls emptyWorld @ CallUpdate (fst (splitResourceID2 ?env (resourceId (existingService [] []))))
                   (snd (splitResourceID2 ?env (resourceId (existingService [] [])))) ureq
         # replicate k (CallGet (d_GetString (existingService [] []) ''project'')
                          (d_GetString (existingService [] []) ''service_name''))"
    and wu: "ReqMaintenanceWindow ureq = None"
    unfolding gu(2) by auto
  then have "ureq = ?ureq" by (simp add: update_rejected_run [unfolded emptyWorld_def] emptyWorld_def)
  with wu have u: "ReqMaintenanceWindow ?ureq = None" by simp
  show ?thesis by (simp add: create_rejected_run update_rejected_run c u)
qed

section \<open>Connection-info projection\<close>



lemma planned_pg_type: "d_GetString (plannedService ''pg'') ''service_type'' = ''pg''"
  by (simp add: d_GetString_def plannedService_def)


section \<open>Components\<close>

text \<open>
  C9. Component reconciliation: a remote component that reports its encryption flag and
  its authentication method is flattened to the five properties component, host, port,
  route and usage only; \<open>ssl\<close> and \<open>kafka_authentication_method\<close>, which the schema
  declares, are never written.
\<close>

theorem components_drop_optional_properties:
  "flattenServiceComponents (exampleService ''kafka'' ''RUNNING'')
     = [TMap [(''component'', TString ''kafka''), (''host'', TString ''kafka-1.example.com''),
              (''port'', TInt 9092), (''route'', TString ''dynamic''),
              (''usage'', TString ''primary'')]]
   \<and> Ssl (hd (Components (exampleService ''kafka'' ''RUNNING''))) = Some False
   \<and> KafkaAuthenticationMethod (hd (Components (exampleService ''kafka'' ''RUNNING''))) = Some ''sasl''"
  by (simp add: flattenServiceComponents_def exampleService_def kafkaComponent_def)

section \<open>The field copy\<close>

text \<open>
  C10. VPC frame condition: after a successful field copy the record holds the remote
  cloud name, service name, state, plan, termination protection, maintenance window and
  service URI whatever it held before, while \<open>project_vpc_id\<close> keeps its previous value
  when the remote reports no VPC and holds the rebuilt two-part reference otherwise.
\<close>

theorem vpc_frame_condition:
  assumes "copyServicePropertiesFromAPIResponseToTerraform env d service project = (Success, d')"
  shows "attrs d' ''cloud_name'' = Some (TString (CloudName service))
       \<and> attrs d' ''service_name'' = Some (TString (Name service))
       \<and> attrs d' ''state'' = Some (TString (State service))
       \<and> attrs d' ''plan'' = Some (TString (Plan service))
       \<and> attrs d' ''termination_protection'' = Some (TBool (TerminationProtection service))
       \<and> attrs d' ''maintenance_window_dow''
           = Some (TString (DayOfWeek (MaintenanceWindow service)))
       \<and> attrs d' ''maintenance_window_time''
           = Some (TString (TimeOfDay (MaintenanceWindow service)))
       \<and> attrs d' ''service_uri'' = Some (TString (URI service))
       \<and> attrs d' ''project_vpc_id''
           = (case ProjectVPCID service of
                None \<Rightarrow> attrs d ''project_vpc_id''
              | Some vpc \<Rightarrow> Some (TString (buildResourceID [project, vpc])))"
proof -
  from copyServiceProperties_Success_valid [OF assms]
  have v: "validServiceType (effectiveServiceType d service)" .
  from assms obtain props where
    "d' = assignAll
            (copyAssignments env (effectiveServiceType d service) service project props) d"
    by (rule copyServiceProperties_Success)
  then show ?thesis
    by (simp only: attrs_copyAssignments_fixed [OF v] attrs_copyAssignments_vpc [OF v] simp_thms)
qed

lemma serviceInVpc_copy:
  "copyServicePropertiesFromAPIResponseToTerraform (scriptedEnv [] None) serviceInVpc
       (exampleService ''pg'' ''RUNNING'') ''proj''
     = (Success,
        assignAll (copyAssignments (scriptedEnv [] None) ''pg''
                     (exampleService ''pg'' ''RUNNING'') ''proj'' (pgProps noConnectionInfo))
          serviceInVpc)"
proof -
  have t: "effectiveServiceType serviceInVpc (exampleService ''pg'' ''RUNNING'') = ''pg''"
    by (simp add: effectiveServiceType_def d_GetString_def serviceInVpc_def existingService_def)
  have p: "connectionProps ''pg'' (ConnectionInfo (exampleService ''pg'' ''RUNNING''))
             = Some (pgProps noConnectionInfo)"
    by (simp add: connectionProps_def exampleService_def)
  have k: "fst ` set (copyAssignments (scriptedEnv [] None) ''pg''
                        (exampleService ''pg'' ''RUNNING'') ''proj'' (pgProps noConnectionInfo))
             \<subseteq> set (schemaKeys serviceInVpc)"
    by (simp add: copyAssignments_def copyFixed_def copyVpc_def copyRest_def exampleService_def
          serviceInVpc_def existingService_def aivenServiceSchema_def)
  from copyServiceProperties_SuccessI [of serviceInVpc "exampleService ''pg'' ''RUNNING''"
         "pgProps noConnectionInfo" "scriptedEnv [] None" "''proj''"] t p k
  show ?thesis by simp
qed

theorem vpc_frame_condition_witness:
  "attrs (snd (copyServicePropertiesFromAPIResponseToTerraform (scriptedEnv [] None) serviceInVpc
                 (exampleService ''pg'' ''RUNNING'') ''proj'')) ''project_vpc_id''
     = Some (TString ''proj/vpc1'')
   \<and> attrs (snd (copyServicePropertiesFromAPIResponseToTerraform (scriptedEnv [] None) serviceInVpc
                 (exampleService ''pg'' ''RUNNING'') ''proj'')) ''plan''
     = Some (TString ''startup-4'')"
proof -
  let ?d' = "assignAll (copyAssignments (scriptedEnv [] None) ''pg''
                     (exampleService ''pg'' ''RUNNING'') ''proj'' (pgProps noConnectionInfo))
               serviceInVpc"
  note w = vpc_frame_condition [OF serviceInVpc_copy]
  have vpc: "ProjectVPCID (exampleService ''pg'' ''RUNNING'') = None"
    and plan: "Plan (exampleService ''pg'' ''RUNNING'') = ''startup-4''"
    by (simp_all add: exampleService_def)
  have old: "attrs serviceInVpc ''project_vpc_id'' = Some (TString ''proj/vpc1'')"
    by (simp add: serviceInVpc_def)
  from w vpc old have a: "attrs ?d' ''project_vpc_id'' = Some (TString ''proj/vpc1'')"
    by simp
  from w plan have b: "attrs ?d' ''plan'' = Some (TString ''startup-4'')"
    by simp
  show ?thesis by (simp add: serviceInVpc_copy a b)
qed

section \<open>Create\<close>

lemma d_GetString_resourceId [simp]: "d_GetString (d\<lparr>resourceId := i\<rparr>) k = d_GetString d k"
  by (simp add: d_GetString_def)

lemma d_GetString_assignAll_other:
  "k \<notin> fst ` set kvs \<Longrightarrow> d_GetString (assignAll kvs d) k = d_GetString d k"
  by (simp add: d_GetString_def attrs_assignAll_other)

lemma resourceServiceCreate_Success:
  assumes "resourceServiceCreate env d W = (Success, d', W')"
  shows "\<exists>ints created W1 service.
           those (map integrationOf (d_GetList d ''service_integrations'')) = Some ints
           \<and> callCreate env (d_GetString d ''project'')
                 (createServiceRequest env d (vpcIDPointer env d) ints) W = (Inr created, W1)
           \<and> resourceServiceWait env d ''create'' W1 = (Inr service, W')
           \<and> copyServicePropertiesFromAPIResponseToTerraform env
                 (d\<lparr>resourceId := buildResourceID [d_GetString d ''project'', Name service]\<rparr>)
                 service (d_GetString d ''project'') = (Success, d')"
  using assms
  by (auto simp: resourceServiceCreate_def Let_def split: option.splits sum.splits prod.splits)

lemma valid_no_user_config_suffix:
  assumes "validServiceType y"
  shows "y \<noteq> t @ ''_user_config''"
proof
  assume e: "y = t @ ''_user_config''"
  then have "last y = CHR ''g''" and "12 \<le> length y" by simp_all
  with assms show False unfolding validServiceType_cases by auto
qed

text \<open>A successful copy leaves the block of every other service type as it was.\<close>

lemma copy_other_block:
  assumes c: "copyServicePropertiesFromAPIResponseToTerraform env d0 service project = (Success, d')"
    and y: "validServiceType y" and ne: "y \<noteq> effectiveServiceType d0 service"
  shows "attrs d' y = attrs d0 y"
proof -
  let ?t = "effectiveServiceType d0 service"
  from c obtain props where
    d': "d' = assignAll (copyAssignments env ?t service project props) d0"
    by (rule copyServiceProperties_Success)
  have "fst ` set (copyFixed ?t service project) \<subseteq> set serviceCommonSchema"
    by (simp add: copyFixed_def serviceCommonSchema_def)
  moreover have "fst ` set (copyVpc service project) \<subseteq> set serviceCommonSchema"
    using keys_copyVpc [of service project] by (auto simp: serviceCommonSchema_def)
  moreover have "fst ` set (copyRest env ?t service props)
                   \<subseteq> set serviceCommonSchema \<union> {?t @ ''_user_config'', ?t}"
    using keys_copyRest [of env ?t service props] by (auto simp: serviceCommonSchema_def)
  ultimately have "fst ` set (copyAssignments env ?t service project props)
                     \<subseteq> set serviceCommonSchema \<union> {?t @ ''_user_config'', ?t}"
    by (auto simp: copyAssignments_def)
  with valid_not_common(1) [OF y] valid_no_user_config_suffix [OF y, of ?t] ne
  have "y \<notin> fst ` set (copyAssignments env ?t service project props)" by blast
  then show ?thesis unfolding d' by (rule attrs_assignAll_other)
qed

lemma fold_upd_map_add:
  "fold (\<lambda>(k, v) m. m(k \<mapsto> v)) kvs m = m ++ map_of (rev kvs)"
  by (induction kvs arbitrary: m) (auto simp: map_add_def fun_eq_iff split: option.splits)

lemma assignAll_idem: "assignAll kvs (assignAll kvs d) = assignAll kvs d"
proof -
  have "(m ++ f) ++ f = m ++ f" for m f :: "string \<rightharpoonup> tfval"
    by (auto simp: map_add_def fun_eq_iff split: option.splits)
  then show ?thesis by (simp add: assignAll_def fold_upd_map_add)
qed

text \<open>
  A read that observes the service a copy was made from changes nothing, provided the
  decoder gives back the project and the name the identity was built from: the same
  assignments are made again.
\<close>

lemma read_after_copy:
  assumes c: "copyServicePropertiesFromAPIResponseToTerraform env d0 service project = (Success, d')"
    and i: "resourceId d0 = buildResourceID [project, Name service]"
    and s: "splitResourceID2 env (buildResourceID [project, Name service])
              = (project, Name service)"
    and g: "Services_Get env project (Name service) (remote W) = (Inr service, w')"
  shows "resourceServiceRead env d' W =
           (Success, d', \<lparr>remote = w', calls = calls W @ [CallGet project (Name service)]\<rparr>)"
proof -
  let ?t = "effectiveServiceType d0 service"
  from c obtain props where
    p: "connectionProps ?t (ConnectionInfo service) = Some props"
    and k: "fst ` set (copyAssignments env ?t service project props) \<subseteq> set (schemaKeys d0)"
    and d': "d' = assignAll (copyAssignments env ?t service project props) d0"
    by (rule copyServiceProperties_Success)
  from copyServiceProperties_Success_valid [OF c] have v: "validServiceType ?t" .
  have "attrs d' ''service_type'' = Some (TString ?t)"
    unfolding d' by (rule attrs_copyAssignments_fixed [OF v])
  moreover from v have "?t \<noteq> []" unfolding validServiceType_cases by auto
  ultimately have t': "effectiveServiceType d' service = ?t"
    by (simp add: effectiveServiceType_def d_GetString_def)
  have "copyServicePropertiesFromAPIResponseToTerraform env d' service project
          = (Success, assignAll (copyAssignments env ?t service project props) d')"
    using copyServiceProperties_SuccessI [of d' service props env project] p k t'
    by (simp add: d')
  then have c': "copyServicePropertiesFromAPIResponseToTerraform env d' service project
                   = (Success, d')"
    by (simp add: d' assignAll_idem)
  have "resourceId d' = buildResourceID [project, Name service]"
    using i by (simp add: d')
  with s have s': "splitResourceID2 env (resourceId d') = (project, Name service)" by simp
  show ?thesis
    by (simp add: resourceServiceRead_def s' callGet_def g c')
qed

lemma seeded_block:
  "y \<in> set ks \<Longrightarrow> attrs (assignAll (map (\<lambda>block. (block, v)) ks) d) y = Some v"
proof (induction ks arbitrary: d)
  case Nil
  then show ?case by simp
next
  case (Cons a ks)
  let ?d1 = "assignAll [(a, v)] d"
  have step: "assignAll (map (\<lambda>block. (block, v)) (a # ks)) d
                = assignAll (map (\<lambda>block. (block, v)) ks) ?d1"
    using assignAll_Cons [of a v "map (\<lambda>block. (block, v)) ks" d] by simp
  show ?case
  proof (cases "y \<in> set ks")
    case True
    then show ?thesis unfolding step by (rule Cons.IH)
  next
    case False
    with Cons.prems have "y = a" by simp
    moreover from False have "y \<notin> fst ` set (map (\<lambda>block. (block, v)) ks)" by force
    ultimately show ?thesis
      unfolding step by (simp add: attrs_assignAll_other) (simp add: assignAll_def)
  qed
qed

lemma preSeeded_valid: "y \<in> set preSeededBlocks \<Longrightarrow> validServiceType y"
  unfolding validServiceType_cases by (auto simp: preSeededBlocks_def ServiceType_defs)

lemma wrapper_Success:
  assumes "resourceServiceCreateWrapper T env d W = (Success, d', W')"
  shows "resourceServiceCreate env (assignAll (wrapperSeeds T) d) W = (Success, d', W')"
proof -
  obtain out d1 where s: "setAll d (wrapperSeeds T) = (out, d1)"
    by (cases "setAll d (wrapperSeeds T)")
  have w: "resourceServiceCreateWrapper T env d W =
             (case setAll d (wrapperSeeds T) of
                (Success, d1) \<Rightarrow> resourceServiceCreate env d1 W
              | (other, d1) \<Rightarrow> (other, d1, W))"
    by (simp add: resourceServiceCreateWrapper_def wrapperSeeds_def)
  from assms w s have o: "out = Success" by (cases out) auto
  with s have d1: "d1 = assignAll (wrapperSeeds T) d" by (simp add: setAll_Success_iff)
  from assms w s o d1 show ?thesis by simp
qed

lemma example_copy_any:
  assumes t: "d_GetString d ''service_type'' = t" and ne: "t \<noteq> []"
    and p: "connectionProps t noConnectionInfo = Some props"
    and k: "set serviceCommonSchema \<union> {t, t @ ''_user_config''} \<subseteq> set (schemaKeys d)"
  shows "copyServicePropertiesFromAPIResponseToTerraform env d (exampleService t' st) ''proj''
           = (Success,
              assignAll (copyAssignments env t (exampleService t' st) ''proj'' props) d)"
proof -
  let ?s = "exampleService t' st"
  have e: "effectiveServiceType d ?s = t"
    using ne by (simp add: effectiveServiceType_def t)
  have c: "connectionProps t (ConnectionInfo ?s) = Some props"
    using p by (simp add: exampleService_def)
  have "fst ` set (copyFixed t ?s ''proj'') \<subseteq> set serviceCommonSchema"
    by (simp add: copyFixed_def serviceCommonSchema_def)
  moreover have "fst ` set (copyVpc ?s ''proj'') \<subseteq> set serviceCommonSchema"
    using keys_copyVpc [of ?s "''proj''"] by (auto simp: serviceCommonSchema_def)
  moreover have "fst ` set (copyRest env t ?s props)
                   \<subseteq> set serviceCommonSchema \<union> {t @ ''_user_config'', t}"
    using keys_copyRest [of env t ?s props] by (auto simp: serviceCommonSchema_def)
  ultimately have "fst ` set (copyAssignments env t ?s ''proj'' props) \<subseteq> set (schemaKeys d)"
    using k by (auto simp: copyAssignments_def)
  with copyServiceProperties_SuccessI [of d ?s props env "''proj''"] e c
  show ?thesis by simp
qed

text \<open>
  A create against a remote that accepts the request and reports the service running at
  the first poll: one create call, one read, then the copy.
\<close>

lemma create_run:
  assumes g: "d_GetString d ''project'' = ''proj''" "d_GetString d ''service_name'' = ''svc1''"
      "d_GetList d ''service_integrations'' = []" "d_GetString d ''project_vpc_id'' = []"
      "0 < timeoutCreate d" "0 < timeoutUpdate d"
    and c: "copyServicePropertiesFromAPIResponseToTerraform
              (scriptedEnv (exampleService t ''RUNNING'' # rest) None) (d\<lparr>resourceId := ''proj/svc1''\<rparr>)
              (exampleService t ''RUNNING'') ''proj'' = (Success, d')"
  shows "resourceServiceCreate (scriptedEnv (exampleService t ''RUNNING'' # rest) None) d emptyWorld
           = (Success, d',
              \<lparr>remote = Suc 0,
                 calls = [CallCreate ''proj''
                            (createServiceRequest (scriptedEnv (exampleService t ''RUNNING'' # rest) None)
                               d None []),
                          CallGet ''proj'' ''svc1'']\<rparr>)"
proof -
  let ?env = "scriptedEnv (exampleService t ''RUNNING'' # rest) None"
  have v: "vpcIDPointer ?env d = None" by (simp add: vpcIDPointer_def g)
  have u: "callCreate ?env ''proj'' (createServiceRequest ?env d None []) emptyWorld
             = (Inr (exampleService t ''RUNNING''),
                \<lparr>remote = 0, calls = [CallCreate ''proj'' (createServiceRequest ?env d None [])]\<rparr>)"
    by (simp add: callCreate_def scriptedEnv_def emptyWorld_def)
  have i: "buildResourceID [''proj'', Name (exampleService t ''RUNNING'')] = ''proj/svc1''"
    by (simp add: buildResourceID_def exampleService_def)
  show ?thesis
    unfolding resourceServiceCreate_def
    using c running_wait [OF g(1,2,5,6), of t rest "''create''"]
    by (simp add: g v u i)
qed

lemma generic_pg_run:
  "resourceServiceCreateWrapper ''service'' (scriptedEnv (exampleService ''pg'' ''RUNNING'' # rest) None)
       (plannedService ''pg'') emptyWorld
     = (Success,
        assignAll (copyAssignments (scriptedEnv (exampleService ''pg'' ''RUNNING'' # rest) None) ''pg''
                     (exampleService ''pg'' ''RUNNING'') ''proj'' (pgProps noConnectionInfo))
          ((assignAll (map (\<lambda>block. (block, TList [])) preSeededBlocks) (plannedService ''pg''))
             \<lparr>resourceId := ''proj/svc1''\<rparr>),
        \<lparr>remote = Suc 0,
           calls = [CallCreate ''proj''
                      (createServiceRequest (scriptedEnv (exampleService ''pg'' ''RUNNING'' # rest) None)
                         (assignAll (map (\<lambda>block. (block, TList [])) preSeededBlocks)
                            (plannedService ''pg'')) None []),
                    CallGet ''proj'' ''svc1'']\<rparr>)"
proof -
  let ?env = "scriptedEnv (exampleService ''pg'' ''RUNNING'' # rest) None"
  let ?seeds = "map (\<lambda>block. (block, TList [])) preSeededBlocks"
  let ?d1 = "assignAll ?seeds (plannedService ''pg'')"
  have k: "schemaKeys (plannedService ''pg'') = aivenServiceSchema"
    by (simp add: plannedService_def)
  have s: "setAll (plannedService ''pg'') ?seeds = (Success, ?d1)"
    by (rule setAll_SuccessI)
       (simp add: k preSeededBlocks_def ServiceType_defs aivenServiceSchema_def)
  have a: "attrs ?d1 ''project'' = Some (TString ''proj'')"
    "attrs ?d1 ''service_name'' = Some (TString ''svc1'')"
    "attrs ?d1 ''service_type'' = Some (TString ''pg'')"
    "attrs ?d1 ''service_integrations'' = None"
    "attrs ?d1 ''project_vpc_id'' = None"
    by (simp_all add: assignAll_def preSeededBlocks_def ServiceType_defs plannedService_def)
  have g: "d_GetString ?d1 ''project'' = ''proj''" "d_GetString ?d1 ''service_name'' = ''svc1''"
    "d_GetList ?d1 ''service_integrations'' = []" "d_GetString ?d1 ''project_vpc_id'' = []"
    "0 < timeoutCreate ?d1" "0 < timeoutUpdate ?d1"
    by (simp_all add: d_GetString_def d_GetList_def listOf_def a)
       (simp_all add: assignAll_def plannedService_def)
  have t: "d_GetString (?d1\<lparr>resourceId := ''proj/svc1''\<rparr>) ''service_type'' = ''pg''"
    by (simp add: d_GetString_def a)
  have p: "connectionProps ''pg'' noConnectionInfo = Some (pgProps noConnectionInfo)"
    by (simp add: connectionProps_def)
  have sk: "set serviceCommonSchema \<union> {''pg'', ''pg'' @ ''_user_config''}
              \<subseteq> set (schemaKeys (?d1\<lparr>resourceId := ''proj/svc1''\<rparr>))"
    by (simp add: k serviceCommonSchema_def aivenServiceSchema_def)
  have c: "copyServicePropertiesFromAPIResponseToTerraform ?env (?d1\<lparr>resourceId := ''proj/svc1''\<rparr>)
             (exampleService ''pg'' ''RUNNING'') ''proj''
           = (Success,
              assignAll (copyAssignments ?env ''pg'' (exampleService ''pg'' ''RUNNING'') ''proj''
                           (pgProps noConnectionInfo)) (?d1\<lparr>resourceId := ''proj/svc1''\<rparr>))"
    by (rule example_copy_any [OF t _ p sk]) simp
  from create_run [OF g c] s show ?thesis
    by (simp add: resourceServiceCreateWrapper_def)
qed

lemma redis_run:
  "resourceServiceCreateWrapper ''redis'' (scriptedEnv (exampleService ''redis'' ''RUNNING'' # rest) None)
       plannedRedis emptyWorld
     = (Success,
        assignAll (copyAssignments (scriptedEnv (exampleService ''redis'' ''RUNNING'' # rest) None)
                     ''redis'' (exampleService ''redis'' ''RUNNING'') ''proj'' [])
          ((assignAll [(''service_type'', TString ''redis''), (''redis'', TList [])] plannedRedis)
             \<lparr>resourceId := ''proj/svc1''\<rparr>),
        \<lparr>remote = Suc 0,
           calls = [CallCreate ''proj''
                      (createServiceRequest (scriptedEnv (exampleService ''redis'' ''RUNNING'' # rest) None)
                         (assignAll [(''service_type'', TString ''redis''), (''redis'', TList [])]
                            plannedRedis) None []),
                    CallGet ''proj'' ''svc1'']\<rparr>)"
proof -
  let ?env = "scriptedEnv (exampleService ''redis'' ''RUNNING'' # rest) None"
  let ?seeds = "[(''service_type'', TString ''redis''), (''redis'', TList [])]"
  let ?d1 = "assignAll ?seeds plannedRedis"
  have k: "schemaKeys plannedRedis = redisSchema"
    by (simp add: plannedRedis_def)
  have s: "setAll plannedRedis ?seeds = (Success, ?d1)"
    by (rule setAll_SuccessI)
       (simp add: k redisSchema_def serviceCommonSchema_def ServiceType_defs)
  have a: "attrs ?d1 ''project'' = Some (TString ''proj'')"
    "attrs ?d1 ''service_name'' = Some (TString ''svc1'')"
    "attrs ?d1 ''service_type'' = Some (TString ''redis'')"
    "attrs ?d1 ''service_integrations'' = None"
    "attrs ?d1 ''project_vpc_id'' = None"
    by (simp_all add: assignAll_def plannedRedis_def)
  have g: "d_GetString ?d1 ''project'' = ''proj''" "d_GetString ?d1 ''service_name'' = ''svc1''"
    "d_GetList ?d1 ''service_integrations'' = []" "d_GetString ?d1 ''project_vpc_id'' = []"
    "0 < timeoutCreate ?d1" "0 < timeoutUpdate ?d1"
    by (simp_all add: d_GetString_def d_GetList_def listOf_def a)
       (simp_all add: assignAll_def plannedRedis_def)
  have t: "d_GetString (?d1\<lparr>resourceId := ''proj/svc1''\<rparr>) ''service_type'' = ''redis''"
    by (simp add: d_GetString_def a)
  have p: "connectionProps ''redis'' noConnectionInfo = Some []"
    by (simp add: connectionProps_def)
  have sk: "set serviceCommonSchema \<union> {''redis'', ''redis'' @ ''_user_config''}
              \<subseteq> set (schemaKeys (?d1\<lparr>resourceId := ''proj/svc1''\<rparr>))"
    by (simp add: k redisSchema_def ServiceType_defs)
  have c: "copyServicePropertiesFromAPIResponseToTerraform ?env (?d1\<lparr>resourceId := ''proj/svc1''\<rparr>)
             (exampleService ''redis'' ''RUNNING'') ''proj''
           = (Success,
              assignAll (copyAssignments ?env ''redis'' (exampleService ''redis'' ''RUNNING'')
                           ''proj'' []) (?d1\<lparr>resourceId := ''proj/svc1''\<rparr>))"
    by (rule example_copy_any [OF t _ p sk]) simp
  from create_run [OF g c] s show ?thesis
    by (simp add: resourceServiceCreateWrapper_def)
qed

lemma example_copy_keys:
  "fst ` set (copyAssignments env t (exampleService t' st) project props)
     = {''cloud_name'', ''service_name'', ''state'', ''plan'', ''service_type'',
        ''termination_protection'', ''maintenance_window_dow'', ''maintenance_window_time'',
        ''service_uri'', ''project'', t @ ''_user_config'', ''service_host'', ''service_port'',
        ''components'', t}"
  by (auto simp: copyAssignments_def copyFixed_def copyVpc_def copyRest_def exampleService_def)

section \<open>Create pre-seeding\<close>

text \<open>
  After a successful create of a PostgreSQL service through the generic resource the block
  of the supported type \<open>m3db\<close> is absent, not empty; and after a successful create through
  the Redis resource the block of the supported type \<open>pg\<close> is absent.
\<close>

theorem create_leaves_blocks_absent:
  "fst (resourceServiceCreateWrapper ''service''
          (scriptedEnv [exampleService ''pg'' ''RUNNING''] None) (plannedService ''pg'') emptyWorld)
     = Success
   \<and> ''m3db'' \<in> set availableServiceTypes
   \<and> attrs (fst (snd (resourceServiceCreateWrapper ''service''
          (scriptedEnv [exampleService ''pg'' ''RUNNING''] None) (plannedService ''pg'') emptyWorld)))
        ''m3db'' = None
   \<and> fst (resourceServiceCreateWrapper ''redis''
          (scriptedEnv [exampleService ''redis'' ''RUNNING''] None) plannedRedis emptyWorld)
     = Success
   \<and> ''pg'' \<in> set availableServiceTypes
   \<and> attrs (fst (snd (resourceServiceCreateWrapper ''redis''
          (scriptedEnv [exampleService ''redis'' ''RUNNING''] None) plannedRedis emptyWorld)))
        ''pg'' = None"
proof -
  have a: "attrs (assignAll (copyAssignments (scriptedEnv [exampleService ''pg'' ''RUNNING''] None)
                     ''pg'' (exampleService ''pg'' ''RUNNING'') ''proj'' (pgProps noConnectionInfo))
          ((assignAll (map (\<lambda>block. (block, TList [])) preSeededBlocks) (plannedService ''pg''))
             \<lparr>resourceId := ''proj/svc1''\<rparr>)) ''m3db'' = None"
    by (subst attrs_assignAll_other)
       (simp_all add: example_copy_keys assignAll_def preSeededBlocks_def ServiceType_defs
          plannedService_def)
  have b: "attrs (assignAll (copyAssignments (scriptedEnv [exampleService ''redis'' ''RUNNING''] None)
                     ''redis'' (exampleService ''redis'' ''RUNNING'') ''proj'' [])
          ((assignAll [(''service_type'', TString ''redis''), (''redis'', TList [])] plannedRedis)
             \<lparr>resourceId := ''proj/svc1''\<rparr>)) ''pg'' = None"
    by (subst attrs_assignAll_other)
       (simp_all add: example_copy_keys assignAll_def plannedRedis_def)
  show ?thesis
    by (simp add: generic_pg_run redis_run a b)
       (simp add: availableServiceTypes_def ServiceType_defs)
qed

text \<open>
  C2 (as amended). Create pre-seeding: after a successful create through the generic
  resource with a validated service type, each of the twelve blocks the wrapper clears,
  other than the block of that type, is present and empty; after a successful create
  through a per-type resource the blocks of the other service types are as they were,
  none being seeded. In both cases the create sent its request, waited, and built the
  identity of the record from the project and the name of the service the wait returned;
  a read of the resulting record that decodes this identity back to the two and is
  answered with that same service returns the record unchanged, after the one read call.
\<close>

theorem create_preseeds_blocks:
  assumes "resourceServiceCreateWrapper T env d W = (Success, d', W')"
  shows "(T = ''service'' \<and> validServiceType (d_GetString d ''service_type'') \<longrightarrow>
            (\<forall>y \<in> set preSeededBlocks.
               y \<noteq> d_GetString d ''service_type'' \<longrightarrow> attrs d' y = Some (TList [])))
       \<and> (validServiceType T \<longrightarrow>
            (\<forall>y \<in> set availableServiceTypes. y \<noteq> T \<longrightarrow> attrs d' y = attrs d y))
       \<and> (let d1 = assignAll (wrapperSeeds T) d; project = d_GetString d1 ''project'' in
          \<exists>ints created W1 service.
            those (map integrationOf (d_GetList d1 ''service_integrations'')) = Some ints
            \<and> callCreate env project (createServiceRequest env d1 (vpcIDPointer env d1) ints) W
                = (Inr created, W1)
            \<and> resourceServiceWait env d1 ''create'' W1 = (Inr service, W')
            \<and> resourceId d' = buildResourceID [project, Name service]
            \<and> (\<forall>w w' cs.
                  splitResourceID2 env (buildResourceID [project, Name service])
                    = (project, Name service)
                  \<and> Services_Get env project (Name service) w = (Inr service, w') \<longrightarrow>
                  resourceServiceRead env d' \<lparr>remote = w, calls = cs\<rparr> =
                    (Success, d', \<lparr>remote = w', calls = cs @ [CallGet project (Name service)]\<rparr>)))"
proof -
  define seeds where "seeds = wrapperSeeds T"
  define project where "project = d_GetString (assignAll seeds d) ''project''"
  from resourceServiceCreate_Success [OF wrapper_Success [OF assms]]
  obtain ints created W1 service where
    o: "those (map integrationOf (d_GetList (assignAll seeds d) ''service_integrations''))
          = Some ints"
      "callCreate env project
         (createServiceRequest env (assignAll seeds d) (vpcIDPointer env (assignAll seeds d)) ints)
         W = (Inr created, W1)"
      "resourceServiceWait env (assignAll seeds d) ''create'' W1 = (Inr service, W')"
    and c: "copyServicePropertiesFromAPIResponseToTerraform env
          ((assignAll seeds d)\<lparr>resourceId := buildResourceID [project, Name service]\<rparr>)
          service project = (Success, d')"
    unfolding seeds_def project_def by blast
  let ?d0 = "(assignAll seeds d)\<lparr>resourceId := buildResourceID [project, Name service]\<rparr>"
  have a0: "attrs ?d0 = attrs (assignAll seeds d)" by simp
  have part1: "attrs d' y = Some (TList [])"
    if T: "T = ''service''" and v: "validServiceType (d_GetString d ''service_type'')"
      and y: "y \<in> set preSeededBlocks" and ne: "y \<noteq> d_GetString d ''service_type''" for y
  proof -
    have sd: "seeds = map (\<lambda>block. (block, TList [])) preSeededBlocks"
      by (simp add: seeds_def wrapperSeeds_def T)
    have "''service_type'' \<notin> fst ` set seeds"
      by (simp add: sd preSeededBlocks_def ServiceType_defs)
    then have "d_GetString ?d0 ''service_type'' = d_GetString d ''service_type''"
      by (simp add: d_GetString_assignAll_other)
    with v have e: "effectiveServiceType ?d0 service = d_GetString d ''service_type''"
      by (simp add: effectiveServiceType_valid)
    from copy_other_block [OF c preSeeded_valid [OF y]] ne e
    have "attrs d' y = attrs (assignAll seeds d) y" by simp
    also have "\<dots> = Some (TList [])" unfolding sd using y by (rule seeded_block)
    finally show ?thesis .
  qed
  have part2: "attrs d' y = attrs d y"
    if v: "validServiceType T" and y: "y \<in> set availableServiceTypes" and ne: "y \<noteq> T" for y
  proof -
    from v have ns: "T \<noteq> ''service''" "T \<noteq> ''service_type''" "T \<noteq> []"
      unfolding validServiceType_cases by auto
    have sd: "seeds = [(''service_type'', TString T), (T, TList [])]"
      by (simp add: seeds_def wrapperSeeds_def ns)
    have "d_GetString ?d0 ''service_type'' = T"
      using ns by (simp add: sd d_GetString_def assignAll_def)
    with ns have e: "effectiveServiceType ?d0 service = T"
      by (simp add: effectiveServiceType_def)
    from y have vy: "validServiceType y" by (simp add: validServiceType_def)
    from valid_not_common(1) [OF vy] have "y \<noteq> ''service_type''"
      by (auto simp: serviceCommonSchema_def)
    with ne have "y \<notin> fst ` set seeds" by (simp add: sd)
    then have "attrs (assignAll seeds d) y = attrs d y" by (rule attrs_assignAll_other)
    with copy_other_block [OF c vy] ne e show ?thesis by simp
  qed
  from c have "resourceId d' = resourceId ?d0"
    by (rule copyServiceProperties_Success) simp
  then have i: "resourceId d' = buildResourceID [project, Name service]" by simp
  have part3: "resourceServiceRead env d' \<lparr>remote = w, calls = cs\<rparr> =
                 (Success, d', \<lparr>remote = w', calls = cs @ [CallGet project (Name service)]\<rparr>)"
    if "splitResourceID2 env (buildResourceID [project, Name service]) = (project, Name service)"
      and "Services_Get env project (Name service) w = (Inr service, w')" for w w' cs
    using read_after_copy [OF c _ that(1), of "\<lparr>remote = w, calls = cs\<rparr>" w'] that(2)
    by simp
  have "\<exists>ints created W1 service.
          those (map integrationOf (d_GetList (assignAll seeds d) ''service_integrations''))
            = Some ints
          \<and> callCreate env project
                (createServiceRequest env (assignAll seeds d)
                   (vpcIDPointer env (assignAll seeds d)) ints) W = (Inr created, W1)
          \<and> resourceServiceWait env (assignAll seeds d) ''create'' W1 = (Inr service, W')
          \<and> resourceId d' = buildResourceID [project, Name service]
          \<and> (\<forall>w w' cs.
                splitResourceID2 env (buildResourceID [project, Name service])
                  = (project, Name service)
                \<and> Services_Get env project (Name service) w = (Inr service, w') \<longrightarrow>
                resourceServiceRead env d' \<lparr>remote = w, calls = cs\<rparr> =
                  (Success, d', \<lparr>remote = w', calls = cs @ [CallGet project (Name service)]\<rparr>))"
    using o i part3 by blast
  then have p3: "let d1 = assignAll (wrapperSeeds T) d; project = d_GetString d1 ''project'' in
          \<exists>ints created W1 service.
            those (map integrationOf (d_GetList d1 ''service_integrations'')) = Some ints
            \<and> callCreate env project (createServiceRequest env d1 (vpcIDPointer env d1) ints) W
                = (Inr created, W1)
            \<and> resourceServiceWait env d1 ''create'' W1 = (Inr service, W')
            \<and> resourceId d' = buildResourceID [project, Name service]
            \<and> (\<forall>w w' cs.
                  splitResourceID2 env (buildResourceID [project, Name service])
                    = (project, Name service)
                  \<and> Services_Get env project (Name service) w = (Inr service, w') \<longrightarrow>
                  resourceServiceRead env d' \<lparr>remote = w, calls = cs\<rparr> =
                    (Success, d', \<lparr>remote = w', calls = cs @ [CallGet project (Name service)]\<rparr>))"
    unfolding Let_def seeds_def project_def .
  from part1 have p1: "T = ''service'' \<and> validServiceType (d_GetString d ''service_type'') \<longrightarrow>
            (\<forall>y \<in> set preSeededBlocks.
               y \<noteq> d_GetString d ''service_type'' \<longrightarrow> attrs d' y = Some (TList []))"
    by blast
  from part2 have p2: "validServiceType T \<longrightarrow>
            (\<forall>y \<in> set availableServiceTypes. y \<noteq> T \<longrightarrow> attrs d' y = attrs d y)"
    by blast
  from p1 p2 p3 show ?thesis by (intro conjI)
qed

text \<open>
  A run of the generic resource and one of the Redis resource, against a remote that
  reports the same running service at every read; the read after the create of the
  PostgreSQL service returns the record unchanged.
\<close>

theorem create_preseeds_blocks_witness:
  "attrs (fst (snd (resourceServiceCreateWrapper ''service''
          (scriptedEnv [exampleService ''pg'' ''RUNNING'', exampleService ''pg'' ''RUNNING''] None)
          (plannedService ''pg'') emptyWorld)))
        ''kafka'' = Some (TList [])
   \<and> attrs (fst (snd (resourceServiceCreateWrapper ''redis''
          (scriptedEnv [exampleService ''redis'' ''RUNNING''] None) plannedRedis emptyWorld)))
        ''pg'' = attrs plannedRedis ''pg''
   \<and> snd (snd (resourceServiceCreateWrapper ''service''
          (scriptedEnv [exampleService ''pg'' ''RUNNING'', exampleService ''pg'' ''RUNNING''] None)
          (plannedService ''pg'') emptyWorld))
       = \<lparr>remote = Suc 0,
          calls = [CallCreate ''proj''
                     (createServiceRequest
                        (scriptedEnv [exampleService ''pg'' ''RUNNING'',
                                      exampleService ''pg'' ''RUNNING''] None)
                        (assignAll (map (\<lambda>block. (block, TList [])) preSeededBlocks)
                           (plannedService ''pg'')) None []),
                   CallGet ''proj'' ''svc1'']\<rparr>
   \<and> resourceServiceRead
         (scriptedEnv [exampleService ''pg'' ''RUNNING'', exampleService ''pg'' ''RUNNING''] None)
         (fst (snd (resourceServiceCreateWrapper ''service''
            (scriptedEnv [exampleService ''pg'' ''RUNNING'', exampleService ''pg'' ''RUNNING''] None)
            (plannedService ''pg'') emptyWorld)))
         (snd (snd (resourceServiceCreateWrapper ''service''
            (scriptedEnv [exampleService ''pg'' ''RUNNING'', exampleService ''pg'' ''RUNNING''] None)
            (plannedService ''pg'') emptyWorld)))
       = (Success,
          fst (snd (resourceServiceCreateWrapper ''service''
            (scriptedEnv [exampleService ''pg'' ''RUNNING'', exampleService ''pg'' ''RUNNING''] None)
            (plannedService ''pg'') emptyWorld)),
          \<lparr>remote = Suc (Suc 0),
             calls = [CallCreate ''proj''
                        (createServiceRequest
                           (scriptedEnv [exampleService ''pg'' ''RUNNING'',
                                         exampleService ''pg'' ''RUNNING''] None)
                           (assignAll (map (\<lambda>block. (block, TList [])) preSeededBlocks)
                              (plannedService ''pg'')) None []),
                      CallGet ''proj'' ''svc1'', CallGet ''proj'' ''svc1'']\<rparr>)"
proof -
  let ?s = "exampleService ''pg'' ''RUNNING''"
  let ?env = "scriptedEnv [?s, ?s] None"
  let ?seeded = "assignAll (map (\<lambda>block. (block, TList [])) preSeededBlocks)
                   (plannedService ''pg'')"
  let ?Dpg = "assignAll (copyAssignments ?env ''pg'' ?s ''proj'' (pgProps noConnectionInfo))
                (?seeded\<lparr>resourceId := ''proj/svc1''\<rparr>)"
  let ?Dredis = "assignAll (copyAssignments (scriptedEnv [exampleService ''redis'' ''RUNNING''] None)
                     ''redis'' (exampleService ''redis'' ''RUNNING'') ''proj'' [])
          ((assignAll [(''service_type'', TString ''redis''), (''redis'', TList [])] plannedRedis)
             \<lparr>resourceId := ''proj/svc1''\<rparr>)"
  let ?req = "createServiceRequest ?env ?seeded None []"
  let ?W' = "\<lparr>remote = Suc 0, calls = [CallCreate ''proj'' ?req, CallGet ''proj'' ''svc1'']\<rparr>"
  have v: "validServiceType (d_GetString (plannedService ''pg'') ''service_type'')"
    "validServiceType ''redis''"
    unfolding validServiceType_cases by (simp_all add: planned_pg_type)
  note run = generic_pg_run [of "[?s]"]
  note main = create_preseeds_blocks [OF run]
  from main v(1)
  have "\<forall>y \<in> set preSeededBlocks.
          y \<noteq> d_GetString (plannedService ''pg'') ''service_type''
          \<longrightarrow> attrs ?Dpg y = Some (TList [])"
    by blast
  then have a: "attrs ?Dpg ''kafka'' = Some (TList [])"
    by (simp add: preSeededBlocks_def ServiceType_defs planned_pg_type)
  from create_preseeds_blocks [OF redis_run [of "[]"]] v(2)
  have "\<forall>y \<in> set availableServiceTypes. y \<noteq> ''redis'' \<longrightarrow> attrs ?Dredis y = attrs plannedRedis y"
    by blast
  then have b: "attrs ?Dredis ''pg'' = attrs plannedRedis ''pg''"
    by (simp add: availableServiceTypes_def ServiceType_defs)
  have sd: "assignAll (wrapperSeeds ''service'') (plannedService ''pg'') = ?seeded"
    by (simp add: wrapperSeeds_def)
  have g: "d_GetString ?seeded ''project'' = ''proj''"
    "d_GetString ?seeded ''service_name'' = ''svc1''"
    "0 < timeoutCreate ?seeded" "0 < timeoutUpdate ?seeded"
    by (simp_all add: d_GetString_def assignAll_def preSeededBlocks_def ServiceType_defs
          plannedService_def)
  from main [THEN conjunct2, THEN conjunct2, unfolded Let_def sd g(1)]
  obtain ints created W1 service where
    cc: "callCreate ?env ''proj'' (createServiceRequest ?env ?seeded (vpcIDPointer ?env ?seeded) ints)
           emptyWorld = (Inr created, W1)"
    and wt: "resourceServiceWait ?env ?seeded ''create'' W1 = (Inr service, ?W')"
    and rd: "\<forall>w w' cs.
               splitResourceID2 ?env (buildResourceID [''proj'', Name service])
                 = (''proj'', Name service)
               \<and> Services_Get ?env ''proj'' (Name service) w = (Inr service, w') \<longrightarrow>
               resourceServiceRead ?env ?Dpg \<lparr>remote = w, calls = cs\<rparr> =
                 (Success, ?Dpg, \<lparr>remote = w', calls = cs @ [CallGet ''proj'' (Name service)]\<rparr>)"
    by blast
  from cc have W1: "remote W1 = 0"
    by (auto simp: callCreate_def scriptedEnv_def emptyWorld_def)
  obtain cs1 where W1': "W1 = \<lparr>remote = 0, calls = cs1\<rparr>"
    using W1 by (cases W1) simp
  from wt running_wait [OF g, of "''pg''" "[?s]" "''create''" cs1]
  have sv: "service = ?s" by (simp add: W1')
  have n: "Name ?s = ''svc1''" by (simp add: exampleService_def)
  have dec: "splitResourceID2 ?env (buildResourceID [''proj'', ''svc1'']) = (''proj'', ''svc1'')"
    using split_proj_svc1 [of "[?s, ?s]" None] by (simp add: buildResourceID_def)
  have get: "Services_Get ?env ''proj'' ''svc1'' (Suc 0) = (Inr ?s, Suc (Suc 0))"
    by (simp add: scriptedEnv_def)
  from rd [unfolded sv n, rule_format, OF conjI [OF dec get],
           of "[CallCreate ''proj'' ?req, CallGet ''proj'' ''svc1'']"]
  have r: "resourceServiceRead ?env ?Dpg ?W'
             = (Success, ?Dpg,
                \<lparr>remote = Suc (Suc 0),
                   calls = [CallCreate ''proj'' ?req, CallGet ''proj'' ''svc1'',
                            CallGet ''proj'' ''svc1'']\<rparr>)"
    by simp
  show ?thesis by (simp add: run redis_run a b r)
qed

end
